theory Spec2Isabelle
  imports Main
begin

section \<open>Go strings\<close>

text \<open>
  A Go string is a sequence of bytes, here a \<open>string\<close> (a list of 8-bit characters).
  The functions of package \<open>strings\<close> that the provider calls are written out:
  \<open>strings.HasPrefix\<close>, \<open>strings.Contains\<close>, \<open>strings.Index\<close> (with \<open>None\<close> for
  Go's -1) and \<open>strings.SplitN\<close> for a non-empty separator and a count \<open>n \<ge> 0\<close>.
\<close>

fun HasPrefix :: "string \<Rightarrow> string \<Rightarrow> bool" where
  "HasPrefix s [] = True"
| "HasPrefix [] (p # ps) = False"
| "HasPrefix (c # s) (p # ps) = (c = p \<and> HasPrefix s ps)"

fun Contains :: "string \<Rightarrow> string \<Rightarrow> bool" where
  "Contains [] substr = (substr = [])"
| "Contains (c # s) substr = (HasPrefix (c # s) substr \<or> Contains s substr)"

fun Index :: "string \<Rightarrow> string \<Rightarrow> nat option" where
  "Index [] substr = (if substr = [] then Some 0 else None)"
| "Index (c # s) substr =
     (if HasPrefix (c # s) substr then Some 0 else map_option Suc (Index s substr))"

fun SplitN :: "string \<Rightarrow> string \<Rightarrow> nat \<Rightarrow> string list" where
  "SplitN s sep 0 = []"
| "SplitN s sep (Suc 0) = [s]"
| "SplitN s sep (Suc (Suc n)) =
     (case Index s sep of
        None \<Rightarrow> [s]
      | Some m \<Rightarrow> take m s # SplitN (drop (m + length sep) s) sep (Suc n))"

text \<open>The verb \<open>%d\<close> of \<open>fmt\<close> on a non-negative integer.\<close>

definition digit :: "nat \<Rightarrow> char" where
  "digit d = ''0123456789'' ! d"

function decimal :: "nat \<Rightarrow> string" where
  "decimal n = (if n < 10 then [digit n] else decimal (n div 10) @ [digit (n mod 10)])"
  by pat_completeness auto
termination
  by (relation "measure id") auto

section \<open>The GraphQL envelope and the errors of the client\<close>

text \<open>
  The values that travel in \<open>map[string]interface{}\<close>: strings, integers, booleans,
  slices and nested maps. A Go map is a partial function from its keys.
\<close>

datatype jvalue =
    JString string
  | JInt int
  | JBool bool
  | JArray "jvalue list"
  | JObject "string \<Rightarrow> jvalue option"

record graphQLRequest =
  Query :: string
  Variables :: "string \<Rightarrow> jvalue option"

record graphQLError =
  Message :: string

record graphQLResponse =
  Data :: string
  Errors :: "graphQLError list"

text \<open>
  Every error the client builds with \<open>fmt.Errorf\<close> is a constructor; \<open>Error\<close> gives the
  message that \<open>err.Error()\<close> returns. A wrapped error (\<open>%w\<close>) keeps the inner one; \<open>JSONError\<close> is an error of
  \<open>encoding/json\<close> that the code returns as it is.
\<close>

datatype error =
    MarshalFailed string
  | NewRequestFailed string
  | ExecuteFailed string
  | ReadBodyFailed string
  | APIStatus nat string
  | UnmarshalResponseFailed string
  | GraphQLFailure string
  | MaxRetriesExceeded
  | CreatePodFailed error
  | UnmarshalPodFailed string
  | NoPodReturned
  | PodNotFound string
  | TerminatePodFailed error
  | UnmarshalGpuTypeFailed string
  | GpuTypeNotFound string
  | JSONError string

fun Error :: "error \<Rightarrow> string" where
  "Error (MarshalFailed e) = ''failed to marshal request body: '' @ e"
| "Error (NewRequestFailed e) = ''failed to create request: '' @ e"
| "Error (ExecuteFailed e) = ''failed to execute request: '' @ e"
| "Error (ReadBodyFailed e) = ''failed to read response body: '' @ e"
| "Error (APIStatus status body) = ''API returned status '' @ decimal status @ '': '' @ body"
| "Error (UnmarshalResponseFailed e) = ''failed to unmarshal response: '' @ e"
| "Error (GraphQLFailure m) = ''GraphQL error: '' @ m"
| "Error MaxRetriesExceeded = ''max retries exceeded''"
| "Error (CreatePodFailed err) = ''failed to create pod: '' @ Error err"
| "Error (UnmarshalPodFailed e) = ''failed to unmarshal pod response: '' @ e"
| "Error NoPodReturned = ''no pod returned from API''"
| "Error (PodNotFound id') = ''pod not found: '' @ id'"
| "Error (TerminatePodFailed err) = ''failed to terminate pod: '' @ Error err"
| "Error (UnmarshalGpuTypeFailed e) = ''failed to unmarshal gpu type response: '' @ e"
| "Error (GpuTypeNotFound id') = ''GPU type not found: '' @ id'"
| "Error (JSONError e) = e"

section \<open>The data model of the client\<close>

text \<open>
  The structs of \<open>client.go\<close>. A field keeps its Go name behind the name of its struct,
  since several structs share field names. A pointer field is an \<open>option\<close> (\<open>None\<close> for
  \<open>nil\<close>). Go's \<open>int\<close> and \<open>int64\<close> are both 64 bits wide on the targets the provider is
  built for; the code copies these numbers and compares them with 0 and never computes
  with them, so they are integers here. \<open>Read\<close> looks up \<open>pod.Machine.GpuTypeID\<close>, so
  \<open>Machine\<close> carries that field beside \<open>PodHostID\<close>.
\<close>

record EnvVar =
  Key :: string
  Value :: string

record Machine =
  Machine_PodHostID :: string
  Machine_GpuTypeID :: string

record Port =
  Port_IP :: string
  Port_IsIPPublic :: bool
  Port_PrivatePort :: int
  Port_PublicPort :: int
  Port_Type :: string

record Runtime =
  Runtime_UptimeInSeconds :: int
  Runtime_Ports :: "Port list"

record Pod =
  Pod_ID :: string
  Pod_Name :: string
  Pod_ImageName :: string
  Pod_GpuTypeID :: string
  Pod_GpuCount :: int
  Pod_VolumeInGb :: int
  Pod_ContainerDiskInGb :: int
  Pod_DesiredStatus :: string
  Pod_CloudType :: string
  Pod_Ports :: string
  Pod_VolumeMountPath :: string
  Pod_DockerArgs :: string
  Pod_Env :: "EnvVar list"
  Pod_MachineID :: string
  Pod_Machine :: "Machine option"
  Pod_Runtime :: "Runtime option"

record PodInput =
  PodInput_Name :: string
  PodInput_ImageName :: string
  PodInput_GpuTypeID :: string
  PodInput_GpuTypeIDs :: "string list"
  PodInput_GpuCount :: int
  PodInput_VolumeInGb :: int
  PodInput_ContainerDiskInGb :: int
  PodInput_CloudType :: string
  PodInput_Ports :: string
  PodInput_VolumeMountPath :: string
  PodInput_DockerArgs :: string
  PodInput_Env :: "EnvVar list"
  PodInput_MinVcpuCount :: int
  PodInput_MinMemoryInGb :: int
  PodInput_NetworkVolumeID :: string
  PodInput_TemplateID :: string
  PodInput_DataCenterID :: string
  PodInput_SupportPublicIP :: bool
  PodInput_StartSSH :: bool

record GpuType =
  GpuType_ID :: string
  GpuType_DisplayName :: string
  GpuType_MemoryInGb :: int
  GpuType_SecureCloud :: bool
  GpuType_CommunityCloud :: bool

text \<open>
  Package \<open>encoding/json\<close> is a collaborator, taken as a parameter. \<open>Marshal\<close> encodes the
  request envelope and \<open>UnmarshalResponse\<close> decodes a response body into the response
  envelope. \<open>UnmarshalPod\<close> decodes the payload into a struct with one \<open>*Pod\<close> field
  under the given JSON name, \<open>UnmarshalGpuTypes\<close> into a struct with the slice
  \<open>gpuTypes\<close>, \<open>UnmarshalStrings\<close> into a \<open>[]string\<close> and \<open>UnmarshalEnvVarList\<close> into a
  \<open>[]EnvVar\<close>. \<open>Inl\<close> carries the message of the library's error.
\<close>

record encoding_json =
  Marshal :: "graphQLRequest \<Rightarrow> string + string"
  UnmarshalResponse :: "string \<Rightarrow> string + graphQLResponse"
  UnmarshalPod :: "string \<Rightarrow> string \<Rightarrow> string + Pod option"
  UnmarshalGpuTypes :: "string \<Rightarrow> string + GpuType list"
  UnmarshalStrings :: "string \<Rightarrow> string + string list"
  UnmarshalEnvVarList :: "string \<Rightarrow> string + EnvVar list"

subsection \<open>Decoding environment entries\<close>

text \<open>
  The loop of \<open>EnvVars.UnmarshalJSON\<close> over the decoded string array; \<open>e\<close> is the slice
  built so far.
\<close>

fun EnvVars_append :: "string list \<Rightarrow> EnvVar list \<Rightarrow> EnvVar list" where
  "EnvVars_append [] e = e"
| "EnvVars_append (s # stringArray) e =
     (let parts = SplitN s ''='' 2 in
      if length parts = 2 then
        EnvVars_append stringArray (e @ [\<lparr>Key = parts ! 0, Value = parts ! 1\<rparr>])
      else if length parts = 1 then
        EnvVars_append stringArray (e @ [\<lparr>Key = parts ! 0, Value = ''''\<rparr>])
      else EnvVars_append stringArray e)"

definition EnvVars_UnmarshalJSON :: "encoding_json \<Rightarrow> string \<Rightarrow> error + EnvVar list" where
  "EnvVars_UnmarshalJSON J data =
     (case UnmarshalStrings J data of
        Inr stringArray \<Rightarrow> Inr (EnvVars_append stringArray [])
      | Inl _ \<Rightarrow>
          (case UnmarshalEnvVarList J data of
             Inl err \<Rightarrow> Inl (JSONError err)
           | Inr envVars \<Rightarrow> Inr envVars))"

section \<open>The transport client\<close>

text \<open>
  What one pass of the retry loop meets: \<open>http.NewRequest\<close> fails, \<open>httpClient.Do\<close>
  fails, \<open>io.ReadAll\<close> fails (each with the message of the library's error), or a
  response arrives with a status code and a body.
\<close>

datatype http_outcome =
    NewRequestError string
  | DoError string
  | ReadAllError string
  | HTTPResponse nat string

text \<open>
  The client holds the endpoint and the credential. Its \<open>httpClient\<close> is the remote
  service as the loop sees it: the outcome of posting a body to a URL, for the attempt
  number of the exchange.
\<close>

record Client =
  baseURL :: string
  apiKey :: string
  httpClient :: "string \<Rightarrow> string \<Rightarrow> nat \<Rightarrow> http_outcome"

definition defaultBaseURL :: string where
  "defaultBaseURL = ''https://api.runpod.io/graphql''"

definition maxRetries :: nat where
  "maxRetries = 5"

text \<open>A \<open>time.Duration\<close> counts nanoseconds.\<close>

definition Second :: int where
  "Second = 1000000000"

definition baseDelay :: int where
  "baseDelay = 2 * Second"

text \<open>
  A run of \<open>doRequest\<close>: what it returns, how many passes of the loop were made, and the
  durations handed to \<open>time.Sleep\<close>, in order.
\<close>

record run =
  result :: "error + string"
  attempts :: nat
  sleeps :: "int list"

text \<open>The URL of every request: \<open>fmt.Sprintf("%s?api_key=%s", c.baseURL, c.apiKey)\<close>.\<close>

definition requestURL :: "Client \<Rightarrow> string" where
  "requestURL c = baseURL c @ ''?api_key='' @ apiKey c"

text \<open>The statements of the loop body after the retry check (lines 98 to 111).\<close>

definition unwrap :: "encoding_json \<Rightarrow> nat \<Rightarrow> string \<Rightarrow> error + string" where
  "unwrap J status respBody =
     (if status \<ge> 400 then Inl (APIStatus status respBody)
      else case UnmarshalResponse J respBody of
             Inl e \<Rightarrow> Inl (UnmarshalResponseFailed e)
           | Inr gqlResp \<Rightarrow>
               if length (Errors gqlResp) > 0
               then Inl (GraphQLFailure (Message (Errors gqlResp ! 0)))
               else Inr (Data gqlResp))"

function doRequest_loop ::
  "encoding_json \<Rightarrow> Client \<Rightarrow> string \<Rightarrow> nat \<Rightarrow> int list \<Rightarrow> run" where
  "doRequest_loop J c jsonBody attempt slept =
     (if attempt < maxRetries then
        (case httpClient c (requestURL c) jsonBody attempt of
           NewRequestError e \<Rightarrow>
             \<lparr>result = Inl (NewRequestFailed e), attempts = attempt + 1, sleeps = slept\<rparr>
         | DoError e \<Rightarrow>
             \<lparr>result = Inl (ExecuteFailed e), attempts = attempt + 1, sleeps = slept\<rparr>
         | ReadAllError e \<Rightarrow>
             \<lparr>result = Inl (ReadBodyFailed e), attempts = attempt + 1, sleeps = slept\<rparr>
         | HTTPResponse status respBody \<Rightarrow>
             if status = 429 \<or> status = 503 then
               if attempt < maxRetries - 1 then
                 doRequest_loop J c jsonBody (attempt + 1)
                   (slept @ [baseDelay * 2 ^ attempt])
               else \<lparr>result = unwrap J status respBody, attempts = attempt + 1,
                      sleeps = slept\<rparr>
             else \<lparr>result = unwrap J status respBody, attempts = attempt + 1,
                    sleeps = slept\<rparr>)
      else \<lparr>result = Inl MaxRetriesExceeded, attempts = attempt, sleeps = slept\<rparr>)"
  by pat_completeness auto
termination
  by (relation "measure (\<lambda>(J, c, jsonBody, attempt, slept). maxRetries - attempt)") auto

definition doRequest ::
  "encoding_json \<Rightarrow> Client \<Rightarrow> string \<Rightarrow> (string \<Rightarrow> jvalue option) \<Rightarrow> run" where
  "doRequest J c query variables =
     (case Marshal J \<lparr>Query = query, Variables = variables\<rparr> of
        Inl e \<Rightarrow> \<lparr>result = Inl (MarshalFailed e), attempts = 0, sleeps = []\<rparr>
      | Inr jsonBody \<Rightarrow> doRequest_loop J c jsonBody 0 [])"

section \<open>Resource operations\<close>

text \<open>
  A request document is a raw string literal of several lines, indented with tabs.
  \<open>document\<close> joins its lines with newlines, \<open>indent\<close> puts the tabs before a line.
\<close>

fun document :: "string list \<Rightarrow> string" where
  "document [] = []"
| "document [l] = l"
| "document (l # ls) = l @ ''\<newline>'' @ document ls"

definition indent :: "nat \<Rightarrow> string \<Rightarrow> string" where
  "indent n l = replicate n (CHR 0x09) @ l"

subsection \<open>CreatePod\<close>

definition CreatePod_query :: string where
  "CreatePod_query = document [
     ''mutation PodFindAndDeployOnDemand($input: PodFindAndDeployOnDemandInput!) {'',
     indent 2 ''podFindAndDeployOnDemand(input: $input) {'',
     indent 3 ''id'',
     indent 3 ''name'',
     indent 3 ''imageName'',
     indent 3 ''gpuCount'',
     indent 3 ''volumeInGb'',
     indent 3 ''containerDiskInGb'',
     indent 3 ''desiredStatus'',
     indent 3 ''ports'',
     indent 3 ''volumeMountPath'',
     indent 3 ''dockerArgs'',
     indent 3 ''env'',
     indent 3 ''machineId'',
     indent 3 ''machine {'',
     indent 4 ''podHostId'',
     indent 3 ''}'',
     indent 2 ''}'',
     indent 1 ''}'']"

text \<open>
  The input map of the mutation (lines 240 to 296): five keys are always set, every
  other key only under its condition, in the order of the source.
\<close>

definition CreatePod_inputMap :: "PodInput \<Rightarrow> (string \<Rightarrow> jvalue option)" where
  "CreatePod_inputMap input =
     (let inputMap = [''name'' \<mapsto> JString (PodInput_Name input),
                      ''imageName'' \<mapsto> JString (PodInput_ImageName input),
                      ''gpuCount'' \<mapsto> JInt (PodInput_GpuCount input),
                      ''volumeInGb'' \<mapsto> JInt (PodInput_VolumeInGb input),
                      ''containerDiskInGb'' \<mapsto> JInt (PodInput_ContainerDiskInGb input)];
          inputMap =
            (if length (PodInput_GpuTypeIDs input) > 0
             then inputMap(''gpuTypeId'' \<mapsto> JString (PodInput_GpuTypeIDs input ! 0))
             else if PodInput_GpuTypeID input \<noteq> ''''
             then inputMap(''gpuTypeId'' \<mapsto> JString (PodInput_GpuTypeID input))
             else inputMap);
          inputMap =
            (if PodInput_CloudType input \<noteq> ''''
             then inputMap(''cloudType'' \<mapsto> JString (PodInput_CloudType input))
             else inputMap);
          inputMap =
            (if PodInput_Ports input \<noteq> ''''
             then inputMap(''ports'' \<mapsto> JString (PodInput_Ports input))
             else inputMap);
          inputMap =
            (if PodInput_VolumeMountPath input \<noteq> ''''
             then inputMap(''volumeMountPath'' \<mapsto> JString (PodInput_VolumeMountPath input))
             else inputMap);
          inputMap =
            (if PodInput_DockerArgs input \<noteq> ''''
             then inputMap(''dockerArgs'' \<mapsto> JString (PodInput_DockerArgs input))
             else inputMap);
          inputMap =
            (if length (PodInput_Env input) > 0
             then inputMap(''env'' \<mapsto>
                    JArray (map (\<lambda>e. JObject [''key'' \<mapsto> JString (Key e),
                                                ''value'' \<mapsto> JString (Value e)])
                              (PodInput_Env input)))
             else inputMap);
          inputMap =
            (if PodInput_MinVcpuCount input > 0
             then inputMap(''minVcpuCount'' \<mapsto> JInt (PodInput_MinVcpuCount input))
             else inputMap);
          inputMap =
            (if PodInput_MinMemoryInGb input > 0
             then inputMap(''minMemoryInGb'' \<mapsto> JInt (PodInput_MinMemoryInGb input))
             else inputMap);
          inputMap =
            (if PodInput_NetworkVolumeID input \<noteq> ''''
             then inputMap(''networkVolumeId'' \<mapsto> JString (PodInput_NetworkVolumeID input))
             else inputMap);
          inputMap =
            (if PodInput_TemplateID input \<noteq> ''''
             then inputMap(''templateId'' \<mapsto> JString (PodInput_TemplateID input))
             else inputMap);
          inputMap =
            (if PodInput_DataCenterID input \<noteq> ''''
             then inputMap(''dataCenterId'' \<mapsto> JString (PodInput_DataCenterID input))
             else inputMap);
          inputMap =
            (if PodInput_SupportPublicIP input
             then inputMap(''supportPublicIp'' \<mapsto> JBool (PodInput_SupportPublicIP input))
             else inputMap);
          inputMap =
            (if PodInput_StartSSH input
             then inputMap(''startSsh'' \<mapsto> JBool (PodInput_StartSSH input))
             else inputMap)
      in inputMap)"

definition CreatePod_variables :: "PodInput \<Rightarrow> (string \<Rightarrow> jvalue option)" where
  "CreatePod_variables input = [''input'' \<mapsto> JObject (CreatePod_inputMap input)]"

definition CreatePod :: "encoding_json \<Rightarrow> Client \<Rightarrow> PodInput \<Rightarrow> error + Pod" where
  "CreatePod J c input =
     (case result (doRequest J c CreatePod_query (CreatePod_variables input)) of
        Inl err \<Rightarrow> Inl (CreatePodFailed err)
      | Inr data \<Rightarrow>
          (case UnmarshalPod J ''podFindAndDeployOnDemand'' data of
             Inl e \<Rightarrow> Inl (UnmarshalPodFailed e)
           | Inr None \<Rightarrow> Inl NoPodReturned
           | Inr (Some pod) \<Rightarrow> Inr pod))"

subsection \<open>GetPod and TerminatePod\<close>

definition GetPod_query :: string where
  "GetPod_query = document [
     ''query Pod($input: PodFilter!) {'',
     indent 2 ''pod(input: $input) {'',
     indent 3 ''id'',
     indent 3 ''name'',
     indent 3 ''imageName'',
     indent 3 ''gpuCount'',
     indent 3 ''volumeInGb'',
     indent 3 ''containerDiskInGb'',
     indent 3 ''desiredStatus'',
     indent 3 ''ports'',
     indent 3 ''volumeMountPath'',
     indent 3 ''dockerArgs'',
     indent 3 ''env'',
     indent 3 ''machineId'',
     indent 3 ''machine {'',
     indent 4 ''podHostId'',
     indent 3 ''}'',
     indent 3 ''runtime {'',
     indent 4 ''uptimeInSeconds'',
     indent 4 ''ports {'',
     indent 5 ''ip'',
     indent 5 ''isIpPublic'',
     indent 5 ''privatePort'',
     indent 5 ''publicPort'',
     indent 5 ''type'',
     indent 4 ''}'',
     indent 3 ''}'',
     indent 2 ''}'',
     indent 1 ''}'']"

definition podId_variables :: "string \<Rightarrow> (string \<Rightarrow> jvalue option)" where
  "podId_variables id' = [''input'' \<mapsto> JObject [''podId'' \<mapsto> JString id']]"

definition GetPod :: "encoding_json \<Rightarrow> Client \<Rightarrow> string \<Rightarrow> error + Pod" where
  "GetPod J c id' =
     (case result (doRequest J c GetPod_query (podId_variables id')) of
        Inl err \<Rightarrow> Inl err
      | Inr data \<Rightarrow>
          (case UnmarshalPod J ''pod'' data of
             Inl e \<Rightarrow> Inl (UnmarshalPodFailed e)
           | Inr None \<Rightarrow> Inl (PodNotFound id')
           | Inr (Some pod) \<Rightarrow> Inr pod))"

definition TerminatePod_query :: string where
  "TerminatePod_query = document [
     ''mutation PodTerminate($input: PodTerminateInput!) {'',
     indent 2 ''podTerminate(input: $input)'',
     indent 1 ''}'']"

text \<open>\<open>TerminatePod\<close> returns an error or \<open>nil\<close> (\<open>None\<close>).\<close>

definition TerminatePod :: "encoding_json \<Rightarrow> Client \<Rightarrow> string \<Rightarrow> error option" where
  "TerminatePod J c id' =
     (case result (doRequest J c TerminatePod_query (podId_variables id')) of
        Inl err \<Rightarrow> Some (TerminatePodFailed err)
      | Inr _ \<Rightarrow> None)"

subsection \<open>GetGpuType\<close>

definition GetGpuType_query :: "string \<Rightarrow> string" where
  \<open>GetGpuType_query id' = document [
     ''query GpuTypes {'',
     indent 2 (''gpuTypes(input: {id: "'' @ id' @ ''"}) {''),
     indent 3 ''id'',
     indent 3 ''displayName'',
     indent 3 ''memoryInGb'',
     indent 3 ''secureCloud'',
     indent 3 ''communityCloud'',
     indent 2 ''}'',
     indent 1 ''}'']\<close>

definition GetGpuType_variables :: "string \<Rightarrow> (string \<Rightarrow> jvalue option)" where
  "GetGpuType_variables id' = Map.empty"

definition GetGpuType :: "encoding_json \<Rightarrow> Client \<Rightarrow> string \<Rightarrow> error + GpuType" where
  "GetGpuType J c id' =
     (case result (doRequest J c (GetGpuType_query id') (GetGpuType_variables id')) of
        Inl err \<Rightarrow> Inl err
      | Inr data \<Rightarrow>
          (case UnmarshalGpuTypes J data of
             Inl e \<Rightarrow> Inl (UnmarshalGpuTypeFailed e)
           | Inr gpuTypes \<Rightarrow>
               if length gpuTypes = 0 then Inl (GpuTypeNotFound id')
               else Inr (gpuTypes ! 0)))"

section \<open>The pod resource\<close>

text \<open>
  A value of the plugin framework (\<open>types.String\<close>, \<open>types.Int64\<close>, \<open>types.Bool\<close>,
  \<open>types.Map\<close>) is null, unknown or known. \<open>ValueString\<close>, \<open>ValueInt64\<close> and
  \<open>ValueBool\<close> give the zero value of the type for a null or unknown value.
\<close>

datatype 'a tfvalue = Null | Unknown | Known 'a

fun IsNull :: "'a tfvalue \<Rightarrow> bool" where
  "IsNull Null = True"
| "IsNull _ = False"

fun IsUnknown :: "'a tfvalue \<Rightarrow> bool" where
  "IsUnknown Unknown = True"
| "IsUnknown _ = False"

fun ValueString :: "string tfvalue \<Rightarrow> string" where
  "ValueString (Known s) = s"
| "ValueString _ = ''''"

fun ValueInt64 :: "int tfvalue \<Rightarrow> int" where
  "ValueInt64 (Known n) = n"
| "ValueInt64 _ = 0"

fun ValueBool :: "bool tfvalue \<Rightarrow> bool" where
  "ValueBool (Known b) = b"
| "ValueBool _ = False"

text \<open>
  The elements of a known map are listed in the order in which \<open>range\<close> yields them
  (Go leaves the order of a map's keys open); each element is itself a framework value.
\<close>

record PodResourceModel =
  ID :: "string tfvalue"
  Name :: "string tfvalue"
  ImageName :: "string tfvalue"
  GpuTypeID :: "string tfvalue"
  GpuCount :: "int tfvalue"
  VolumeInGb :: "int tfvalue"
  ContainerDiskInGb :: "int tfvalue"
  CloudType :: "string tfvalue"
  Ports :: "string tfvalue"
  VolumeMountPath :: "string tfvalue"
  DockerArgs :: "string tfvalue"
  Env :: "(string \<times> string tfvalue) list tfvalue"
  MinVcpuCount :: "int tfvalue"
  MinMemoryInGb :: "int tfvalue"
  NetworkVolumeID :: "string tfvalue"
  TemplateID :: "string tfvalue"
  DataCenterID :: "string tfvalue"
  SupportPublicIP :: "bool tfvalue"
  StartSSH :: "bool tfvalue"
  MachineID :: "string tfvalue"
  PodHostID :: "string tfvalue"

text \<open>
  A diagnostic is an error the provider adds with \<open>AddError\<close> (summary and detail), or
  one the framework itself reports when it cannot convert a value.
\<close>

datatype diagnostic = AddError string string | ConversionError

text \<open>
  What a lifecycle call hands back: the state (\<open>None\<close> when the resource is not, or no
  longer, tracked) and the diagnostics.
\<close>

record response =
  State :: "PodResourceModel option"
  Diagnostics :: "diagnostic list"

text \<open>
  \<open>Map.ElementsAs\<close> into a \<open>map[string]string\<close>: a conversion error for an unknown map
  or an element that is null or unknown, else the pairs.
\<close>

fun ElementsAs ::
  "(string \<times> string tfvalue) list tfvalue \<Rightarrow> diagnostic list + (string \<times> string) list" where
  "ElementsAs (Known elems) =
     (if list_all (\<lambda>(k, v). \<not> IsNull v \<and> \<not> IsUnknown v) elems
      then Inr (map (\<lambda>(k, v). (k, ValueString v)) elems)
      else Inl [ConversionError])"
| "ElementsAs Null = Inr []"
| "ElementsAs Unknown = Inl [ConversionError]"

subsection \<open>Create\<close>

text \<open>
  The pod input that \<open>Create\<close> builds from the plan (lines 266 to 320), or the
  diagnostics with which it returns when the environment map does not convert.
\<close>

definition Create_input :: "PodResourceModel \<Rightarrow> diagnostic list + PodInput" where
  "Create_input data =
     (let input = \<lparr>PodInput_Name = ValueString (Name data),
                    PodInput_ImageName = ValueString (ImageName data),
                    PodInput_GpuTypeID = '''',
                    PodInput_GpuTypeIDs = [],
                    PodInput_GpuCount = ValueInt64 (GpuCount data),
                    PodInput_VolumeInGb = ValueInt64 (VolumeInGb data),
                    PodInput_ContainerDiskInGb = ValueInt64 (ContainerDiskInGb data),
                    PodInput_CloudType = '''',
                    PodInput_Ports = '''',
                    PodInput_VolumeMountPath = '''',
                    PodInput_DockerArgs = '''',
                    PodInput_Env = [],
                    PodInput_MinVcpuCount = 0,
                    PodInput_MinMemoryInGb = 0,
                    PodInput_NetworkVolumeID = '''',
                    PodInput_TemplateID = '''',
                    PodInput_DataCenterID = '''',
                    PodInput_SupportPublicIP = False,
                    PodInput_StartSSH = False\<rparr>;
          input = input\<lparr>PodInput_GpuTypeID := ValueString (GpuTypeID data)\<rparr>;
          input = (if \<not> IsNull (CloudType data)
                   then input\<lparr>PodInput_CloudType := ValueString (CloudType data)\<rparr>
                   else input);
          input = (if \<not> IsNull (Ports data)
                   then input\<lparr>PodInput_Ports := ValueString (Ports data)\<rparr>
                   else input);
          input = (if \<not> IsNull (VolumeMountPath data)
                   then input\<lparr>PodInput_VolumeMountPath := ValueString (VolumeMountPath data)\<rparr>
                   else input);
          input = (if \<not> IsNull (DockerArgs data)
                   then input\<lparr>PodInput_DockerArgs := ValueString (DockerArgs data)\<rparr>
                   else input)
      in case (if \<not> IsNull (Env data) then ElementsAs (Env data) else Inr []) of
           Inl diags \<Rightarrow> Inl diags
         | Inr envMap \<Rightarrow>
             (let input = input\<lparr>PodInput_Env :=
                            PodInput_Env input @ map (\<lambda>(k, v). \<lparr>Key = k, Value = v\<rparr>) envMap\<rparr>;
                  input = (if \<not> IsNull (MinVcpuCount data)
                           then input\<lparr>PodInput_MinVcpuCount := ValueInt64 (MinVcpuCount data)\<rparr>
                           else input);
                  input = (if \<not> IsNull (MinMemoryInGb data)
                           then input\<lparr>PodInput_MinMemoryInGb := ValueInt64 (MinMemoryInGb data)\<rparr>
                           else input);
                  input = (if \<not> IsNull (NetworkVolumeID data)
                           then input\<lparr>PodInput_NetworkVolumeID :=
                                         ValueString (NetworkVolumeID data)\<rparr>
                           else input);
                  input = (if \<not> IsNull (TemplateID data)
                           then input\<lparr>PodInput_TemplateID := ValueString (TemplateID data)\<rparr>
                           else input);
                  input = (if \<not> IsNull (DataCenterID data)
                           then input\<lparr>PodInput_DataCenterID := ValueString (DataCenterID data)\<rparr>
                           else input);
                  input = (if \<not> IsNull (SupportPublicIP data)
                           then input\<lparr>PodInput_SupportPublicIP :=
                                         ValueBool (SupportPublicIP data)\<rparr>
                           else input);
                  input = (if \<not> IsNull (StartSSH data)
                           then input\<lparr>PodInput_StartSSH := ValueBool (StartSSH data)\<rparr>
                           else input)
              in Inr input))"

text \<open>The state that \<open>Create\<close> stores from the plan and the created pod (lines 330 to 337).\<close>

definition Create_state :: "Pod \<Rightarrow> PodResourceModel \<Rightarrow> PodResourceModel" where
  "Create_state pod data =
     (let data = data\<lparr>ID := Known (Pod_ID pod)\<rparr>;
          data = (if Pod_MachineID pod \<noteq> ''''
                  then data\<lparr>MachineID := Known (Pod_MachineID pod)\<rparr> else data);
          data = (case Pod_Machine pod of
                    None \<Rightarrow> data
                  | Some machine \<Rightarrow>
                      if Machine_PodHostID machine \<noteq> ''''
                      then data\<lparr>PodHostID := Known (Machine_PodHostID machine)\<rparr>
                      else data)
      in data)"

text \<open>
  \<open>Create\<close> on the plan \<open>data\<close> (the plan has been read without error). The state of a
  create response starts empty.
\<close>

definition Create :: "encoding_json \<Rightarrow> Client \<Rightarrow> PodResourceModel \<Rightarrow> response" where
  "Create J c data =
     (case Create_input data of
        Inl diags \<Rightarrow> \<lparr>State = None, Diagnostics = diags\<rparr>
      | Inr input \<Rightarrow>
          (case CreatePod J c input of
             Inl err \<Rightarrow>
               \<lparr>State = None,
                Diagnostics = [AddError ''Client Error'' (''Unable to create pod: '' @ Error err)]\<rparr>
           | Inr pod \<Rightarrow> \<lparr>State = Some (Create_state pod data), Diagnostics = []\<rparr>))"

subsection \<open>Read\<close>

text \<open>
  The state that \<open>Read\<close> stores from the prior state and the fetched pod (lines 368 to
  411), statement by statement.
\<close>

definition Read_state :: "Pod \<Rightarrow> PodResourceModel \<Rightarrow> PodResourceModel" where
  "Read_state pod data =
     (let data = data\<lparr>Name := Known (Pod_Name pod)\<rparr>;
          data = data\<lparr>ImageName := Known (Pod_ImageName pod)\<rparr>;
          data = (case Pod_Machine pod of
                    None \<Rightarrow> data
                  | Some machine \<Rightarrow>
                      if Machine_GpuTypeID machine \<noteq> ''''
                      then data\<lparr>GpuTypeID := Known (Machine_GpuTypeID machine)\<rparr>
                      else data);
          data = data\<lparr>GpuCount := Known (Pod_GpuCount pod)\<rparr>;
          data = data\<lparr>VolumeInGb := Known (Pod_VolumeInGb pod)\<rparr>;
          data = data\<lparr>ContainerDiskInGb := Known (Pod_ContainerDiskInGb pod)\<rparr>;
          data = (if Pod_Ports pod \<noteq> ''''
                  then data\<lparr>Ports := Known (Pod_Ports pod)\<rparr> else data);
          data = (if Pod_VolumeMountPath pod \<noteq> ''''
                  then data\<lparr>VolumeMountPath := Known (Pod_VolumeMountPath pod)\<rparr> else data);
          data = (if Pod_DockerArgs pod \<noteq> ''''
                  then data\<lparr>DockerArgs := Known (Pod_DockerArgs pod)\<rparr> else data);
          data = (if Pod_MachineID pod \<noteq> ''''
                  then data\<lparr>MachineID := Known (Pod_MachineID pod)\<rparr> else data);
          data = (case Pod_Machine pod of
                    None \<Rightarrow> data
                  | Some machine \<Rightarrow>
                      if Machine_PodHostID machine \<noteq> ''''
                      then data\<lparr>PodHostID := Known (Machine_PodHostID machine)\<rparr>
                      else data);
          data = (if IsNull (CloudType data) \<or> IsUnknown (CloudType data)
                  then data\<lparr>CloudType := Known ''ALL''\<rparr> else data)
      in data)"

text \<open>
  \<open>Read\<close> on the prior state \<open>data\<close> (the state has been read without error). The
  state of a read response starts as the prior state; \<open>RemoveResource\<close> empties it.
\<close>

definition Read :: "encoding_json \<Rightarrow> Client \<Rightarrow> PodResourceModel \<Rightarrow> response" where
  "Read J c data =
     (case GetPod J c (ValueString (ID data)) of
        Inl err \<Rightarrow>
          if Contains (Error err) ''not found'' \<or> Contains (Error err) ''Pod not found''
          then \<lparr>State = None, Diagnostics = []\<rparr>
          else \<lparr>State = Some data,
                Diagnostics = [AddError ''Client Error'' (''Unable to read pod: '' @ Error err)]\<rparr>
      | Inr pod \<Rightarrow> \<lparr>State = Some (Read_state pod data), Diagnostics = []\<rparr>)"

text \<open>
  Consecutive calls of \<open>Read\<close>, one per client in the list (the remote service may
  answer each call differently), each on the state the call before it left. A call
  that removes the resource ends the sequence with no state.
\<close>

fun Reads :: "encoding_json \<Rightarrow> Client list \<Rightarrow> PodResourceModel \<Rightarrow> PodResourceModel option" where
  "Reads J [] data = Some data"
| "Reads J (c # cs) data =
     (case State (Read J c data) of
        None \<Rightarrow> None
      | Some data' \<Rightarrow> Reads J cs data')"

subsection \<open>Delete\<close>

text \<open>
  \<open>Delete\<close> on the prior state \<open>data\<close>: the diagnostics it adds. The framework drops the
  resource from the state when \<open>Delete\<close> returns without an error diagnostic.
\<close>

definition Delete :: "encoding_json \<Rightarrow> Client \<Rightarrow> PodResourceModel \<Rightarrow> diagnostic list" where
  "Delete J c data =
     (case TerminatePod J c (ValueString (ID data)) of
        Some err \<Rightarrow>
          if Contains (Error err) ''not found'' then []
          else [AddError ''Client Error'' (''Unable to terminate pod: '' @ Error err)]
      | None \<Rightarrow> [])"

section \<open>Fixtures for concrete runs\<close>

text \<open>
  A remote service that answers the attempts of an exchange from a list, and with
  \<open>final\<close> once the list is used up; a decoder that decodes every body to one envelope
  and every payload to one pod and one catalog; a client for the credential \<open>key\<close>.
\<close>

definition scripted :: "http_outcome list \<Rightarrow> http_outcome \<Rightarrow> string \<Rightarrow> string \<Rightarrow> nat \<Rightarrow> http_outcome" where
  "scripted outcomes final url body attempt =
     (if attempt < length outcomes then outcomes ! attempt else final)"

definition fixed_json :: "graphQLResponse \<Rightarrow> Pod option \<Rightarrow> encoding_json" where
  "fixed_json gqlResp pod =
     \<lparr>Marshal = (\<lambda>reqBody. Inr (Query reqBody)),
      UnmarshalResponse = (\<lambda>respBody. Inr gqlResp),
      UnmarshalPod = (\<lambda>name data. Inr pod),
      UnmarshalGpuTypes = (\<lambda>data. Inr []),
      UnmarshalStrings = (\<lambda>data. Inr [''A=b'', ''C='', ''PLAIN'']),
      UnmarshalEnvVarList = (\<lambda>data. Inr [])\<rparr>"

definition NewClient :: "string \<Rightarrow> (string \<Rightarrow> string \<Rightarrow> nat \<Rightarrow> http_outcome) \<Rightarrow> Client" where
  "NewClient key remote = \<lparr>baseURL = defaultBaseURL, apiKey = key, httpClient = remote\<rparr>"

definition no_errors :: "string \<Rightarrow> graphQLResponse" where
  "no_errors data = \<lparr>Data = data, Errors = []\<rparr>"

definition remote_pod :: Pod where
  "remote_pod =
     \<lparr>Pod_ID = ''p1'', Pod_Name = ''x'', Pod_ImageName = ''img'', Pod_GpuTypeID = '''',
      Pod_GpuCount = 1, Pod_VolumeInGb = 20, Pod_ContainerDiskInGb = 20,
      Pod_DesiredStatus = ''RUNNING'', Pod_CloudType = ''COMMUNITY'', Pod_Ports = '''',
      Pod_VolumeMountPath = '''', Pod_DockerArgs = '''', Pod_Env = [],
      Pod_MachineID = ''m1'', Pod_Machine = None, Pod_Runtime = None\<rparr>"

definition local_state :: "string tfvalue \<Rightarrow> PodResourceModel" where
  "local_state cloud =
     \<lparr>ID = Known ''p1'', Name = Known ''x'', ImageName = Known ''img'',
      GpuTypeID = Known ''A4000'', GpuCount = Known 1, VolumeInGb = Known 20,
      ContainerDiskInGb = Known 20, CloudType = cloud, Ports = Null,
      VolumeMountPath = Known ''/workspace'', DockerArgs = Null,
      Env = Known [(''TEST_VAR'', Known ''test_value'')], MinVcpuCount = Known 2,
      MinMemoryInGb = Known 8, NetworkVolumeID = Known ''nv1'', TemplateID = Known ''t1'',
      DataCenterID = Known ''dc1'', SupportPublicIP = Known False, StartSSH = Known True,
      MachineID = Known ''m0'', PodHostID = Null\<rparr>"

definition explicit_zero_plan :: PodResourceModel where
  "explicit_zero_plan =
     (local_state (Known ''SECURE''))
       \<lparr>MinVcpuCount := Known 0, MinMemoryInGb := Known 0,
        SupportPublicIP := Known False, StartSSH := Known False\<rparr>"

section \<open>Properties of the transport client\<close>

declare doRequest_loop.simps [simp del]

declare decimal.simps [simp del]


lemma loop_exhausted:
  "\<not> attempt < maxRetries \<Longrightarrow>
   doRequest_loop J c b attempt slept =
     \<lparr>result = Inl MaxRetriesExceeded, attempts = attempt, sleeps = slept\<rparr>"
  by (subst doRequest_loop.simps) simp

lemma loop_retry:
  "attempt < maxRetries - 1 \<Longrightarrow>
   httpClient c (requestURL c) b attempt = HTTPResponse status respBody \<Longrightarrow>
   status = 429 \<or> status = 503 \<Longrightarrow>
   doRequest_loop J c b attempt slept =
     doRequest_loop J c b (attempt + 1) (slept @ [baseDelay * 2 ^ attempt])"
  by (subst doRequest_loop.simps) auto

lemma loop_response:
  "attempt < maxRetries \<Longrightarrow>
   httpClient c (requestURL c) b attempt = HTTPResponse status respBody \<Longrightarrow>
   \<not> ((status = 429 \<or> status = 503) \<and> attempt < maxRetries - 1) \<Longrightarrow>
   doRequest_loop J c b attempt slept =
     \<lparr>result = unwrap J status respBody, attempts = attempt + 1, sleeps = slept\<rparr>"
  by (subst doRequest_loop.simps) auto

lemma loop_transport_failure:
  "attempt < maxRetries \<Longrightarrow>
   \<forall>status respBody. httpClient c (requestURL c) b attempt \<noteq> HTTPResponse status respBody \<Longrightarrow>
   attempts (doRequest_loop J c b attempt slept) = attempt + 1 \<and>
   sleeps (doRequest_loop J c b attempt slept) = slept \<and>
   (\<exists>e. result (doRequest_loop J c b attempt slept) = Inl e \<and> e \<noteq> MaxRetriesExceeded)"
  by (subst (1 2 3) doRequest_loop.simps) (auto split: http_outcome.splits)

lemma loop_trace:
  "attempt < maxRetries \<Longrightarrow>
   attempt < attempts (doRequest_loop J c b attempt slept) \<and>
   attempts (doRequest_loop J c b attempt slept) \<le> maxRetries \<and>
   sleeps (doRequest_loop J c b attempt slept) =
     slept @ map (\<lambda>k. baseDelay * 2 ^ k)
               [attempt ..< attempts (doRequest_loop J c b attempt slept) - 1]"
proof (induction J c b attempt slept rule: doRequest_loop.induct)
  case (1 J c b attempt slept)
  note lt = \<open>attempt < maxRetries\<close>
  show ?case
  proof (cases "httpClient c (requestURL c) b attempt")
    case (HTTPResponse status respBody)
    show ?thesis
    proof (cases "(status = 429 \<or> status = 503) \<and> attempt < maxRetries - 1")
      case True
      then have retry: "status = 429 \<or> status = 503" and more: "attempt < maxRetries - 1"
        by simp_all
      have next_lt: "attempt + 1 < maxRetries" using more by simp
      have eq: "doRequest_loop J c b attempt slept =
                doRequest_loop J c b (attempt + 1) (slept @ [baseDelay * 2 ^ attempt])"
        using loop_retry[OF more HTTPResponse retry] .
      from "1.IH"[OF lt HTTPResponse retry more next_lt]
      have ih: "attempt + 1 < attempts (doRequest_loop J c b attempt slept)"
               "attempts (doRequest_loop J c b attempt slept) \<le> maxRetries"
               "sleeps (doRequest_loop J c b attempt slept) =
                  (slept @ [baseDelay * 2 ^ attempt]) @ map (\<lambda>k. baseDelay * 2 ^ k)
                    [attempt + 1 ..< attempts (doRequest_loop J c b attempt slept) - 1]"
        unfolding eq by simp_all
      have "[attempt ..< attempts (doRequest_loop J c b attempt slept) - 1] =
            attempt # [attempt + 1 ..< attempts (doRequest_loop J c b attempt slept) - 1]"
        using ih(1) by (simp add: upt_conv_Cons)
      with ih show ?thesis by simp
    next
      case False
      show ?thesis using lt by (simp add: loop_response[OF lt HTTPResponse False])
    qed
  qed (use lt loop_transport_failure[of attempt c b J slept] in auto)
qed

lemma unwrap_not_exhausted: "unwrap J status respBody \<noteq> Inl MaxRetriesExceeded"
  by (auto simp: unwrap_def split: sum.splits)

lemma loop_never_exhausted:
  "attempt < maxRetries \<Longrightarrow>
   result (doRequest_loop J c b attempt slept) \<noteq> Inl MaxRetriesExceeded"
proof (induction J c b attempt slept rule: doRequest_loop.induct)
  case (1 J c b attempt slept)
  note lt = \<open>attempt < maxRetries\<close>
  show ?case
  proof (cases "httpClient c (requestURL c) b attempt")
    case (HTTPResponse status respBody)
    show ?thesis
    proof (cases "(status = 429 \<or> status = 503) \<and> attempt < maxRetries - 1")
      case True
      then have retry: "status = 429 \<or> status = 503" and more: "attempt < maxRetries - 1"
        by simp_all
      have next_lt: "attempt + 1 < maxRetries" using more by simp
      show ?thesis
        using "1.IH"[OF lt HTTPResponse retry more next_lt]
        by (simp add: loop_retry[OF more HTTPResponse retry])
    next
      case False
      show ?thesis
        by (simp add: loop_response[OF lt HTTPResponse False] unwrap_not_exhausted)
    qed
  qed (use lt loop_transport_failure[of attempt c b J slept] in auto)
qed

lemma loop_skip_retries:
  "k < maxRetries \<Longrightarrow>
   (\<And>i. i < k \<Longrightarrow> \<exists>respBody. httpClient c (requestURL c) b i = HTTPResponse 429 respBody \<or>
                       httpClient c (requestURL c) b i = HTTPResponse 503 respBody) \<Longrightarrow>
   doRequest_loop J c b 0 [] =
     doRequest_loop J c b k (map (\<lambda>i. baseDelay * 2 ^ i) [0 ..< k])"
proof (induction k)
  case 0
  show ?case by simp
next
  case (Suc k)
  have k_lt: "k < maxRetries - 1" using Suc.prems(1) by simp
  obtain respBody where
    "httpClient c (requestURL c) b k = HTTPResponse 429 respBody \<or>
     httpClient c (requestURL c) b k = HTTPResponse 503 respBody"
    using Suc.prems(2)[of k] by auto
  then obtain status where
    resp: "httpClient c (requestURL c) b k = HTTPResponse status respBody" and
    retry: "status = 429 \<or> status = 503"
    by auto
  have "doRequest_loop J c b 0 [] =
        doRequest_loop J c b k (map (\<lambda>i. baseDelay * 2 ^ i) [0 ..< k])"
    using Suc.IH Suc.prems by simp
  also have "\<dots> = doRequest_loop J c b (k + 1)
                     (map (\<lambda>i. baseDelay * 2 ^ i) [0 ..< k] @ [baseDelay * 2 ^ k])"
    using loop_retry[OF k_lt resp retry] .
  finally show ?case by simp
qed

lemma backoff_strictly_increasing:
  "sorted_wrt (<) (map (\<lambda>k. baseDelay * 2 ^ k) [m ..< n])"
proof -
  have "i < j \<Longrightarrow> baseDelay * 2 ^ i < baseDelay * 2 ^ j" for i j :: nat
    by (simp add: baseDelay_def Second_def)
  then show ?thesis
    by (simp add: sorted_wrt_map sorted_wrt_iff_nth_less)
qed

lemma doRequest_trace:
  "attempts (doRequest J c q v) \<le> maxRetries \<and>
   sleeps (doRequest J c q v) =
     map (\<lambda>k. baseDelay * 2 ^ k) [0 ..< attempts (doRequest J c q v) - 1]"
proof (cases "Marshal J \<lparr>Query = q, Variables = v\<rparr>")
  case (Inl e)
  then show ?thesis by (simp add: doRequest_def)
next
  case (Inr b)
  have "0 < maxRetries" by (simp add: maxRetries_def)
  from loop_trace[OF this, of J c b "[]"] Inr show ?thesis
    by (simp add: doRequest_def)
qed

text \<open>
  Claim C6. Whatever the remote service answers, one exchange makes at most 5 attempts.
  The sleep before retry \<open>k + 1\<close> lasts \<open>baseDelay * 2 ^ k\<close> with a base delay of 2
  seconds, so the sleeps of a run are an initial part of 2, 4, 8, 16 seconds and
  strictly increase. When the answers are 429, 429, 200, the run makes exactly 3
  attempts and sleeps 2 and then 4 seconds before it unwraps the third answer.
\<close>

theorem doRequest_attempts_and_backoff:
  "attempts (doRequest J c q v) \<le> 5 \<and>
   baseDelay = 2 * Second \<and>
   sleeps (doRequest J c q v) =
     map (\<lambda>k. baseDelay * 2 ^ k) [0 ..< attempts (doRequest J c q v) - 1] \<and>
   sleeps (doRequest J c q v) =
     take (attempts (doRequest J c q v) - 1) [2 * Second, 4 * Second, 8 * Second, 16 * Second] \<and>
   sorted_wrt (<) (sleeps (doRequest J c q v)) \<and>
   (Marshal J \<lparr>Query = q, Variables = v\<rparr> = Inr b \<and>
    httpClient c (requestURL c) b 0 = HTTPResponse 429 b0 \<and>
    httpClient c (requestURL c) b 1 = HTTPResponse 429 b1 \<and>
    httpClient c (requestURL c) b 2 = HTTPResponse 200 b2 \<longrightarrow>
    attempts (doRequest J c q v) = 3 \<and>
    sleeps (doRequest J c q v) = [2 * Second, 4 * Second] \<and>
    result (doRequest J c q v) = unwrap J 200 b2)"
proof -
  let ?r = "doRequest J c q v"
  have bound: "attempts ?r \<le> 5"
    using doRequest_trace[of J c q v] by (simp add: maxRetries_def)
  have form: "sleeps ?r = map (\<lambda>k. baseDelay * 2 ^ k) [0 ..< attempts ?r - 1]"
    using doRequest_trace[of J c q v] by simp
  have incr: "sorted_wrt (<) (sleeps ?r)"
    unfolding form by (rule backoff_strictly_increasing)
  have "n \<le> 4 \<Longrightarrow> map (\<lambda>k. baseDelay * 2 ^ k) [0 ..< n] =
          take n [2 * Second, 4 * Second, 8 * Second, 16 * Second]" for n :: nat
  proof -
    assume "n \<le> 4"
    then consider "n = 0" | "n = 1" | "n = 2" | "n = 3" | "n = 4" by linarith
    then show ?thesis
      by cases (simp_all add: baseDelay_def upt_rec)
  qed
  from this[of "attempts ?r - 1"] bound
  have table: "sleeps ?r =
      take (attempts ?r - 1) [2 * Second, 4 * Second, 8 * Second, 16 * Second]"
    unfolding form by simp
  have example: "attempts ?r = 3 \<and> sleeps ?r = [2 * Second, 4 * Second] \<and>
      result ?r = unwrap J 200 b2"
    if m: "Marshal J \<lparr>Query = q, Variables = v\<rparr> = Inr b"
      and r0: "httpClient c (requestURL c) b 0 = HTTPResponse 429 b0"
      and r1: "httpClient c (requestURL c) b 1 = HTTPResponse 429 b1"
      and r2: "httpClient c (requestURL c) b 2 = HTTPResponse 200 b2"
  proof -
    have s1: "doRequest_loop J c b 0 [] = doRequest_loop J c b 1 [baseDelay]"
      using loop_retry[of 0 c b 429 b0 J "[]"] r0 by (simp add: maxRetries_def)
    have s2: "doRequest_loop J c b 1 [baseDelay] =
              doRequest_loop J c b 2 [baseDelay, baseDelay * 2]"
      using loop_retry[of 1 c b 429 b1 J "[baseDelay]"] r1
      by (simp add: maxRetries_def numeral_2_eq_2)
    have s3: "doRequest_loop J c b 2 [baseDelay, baseDelay * 2] =
              \<lparr>result = unwrap J 200 b2, attempts = 3, sleeps = [baseDelay, baseDelay * 2]\<rparr>"
      using loop_response[of 2 c b 200 b2 J "[baseDelay, baseDelay * 2]"] r2
      by (simp add: maxRetries_def)
    have "doRequest_loop J c b 0 [] =
          \<lparr>result = unwrap J 200 b2, attempts = 3, sleeps = [baseDelay, baseDelay * 2]\<rparr>"
      using s1 s2 s3 by simp
    then show ?thesis using m by (simp add: doRequest_def baseDelay_def)
  qed
  have unit: "baseDelay = 2 * Second"
    by (simp add: baseDelay_def)
  have ex: "Marshal J \<lparr>Query = q, Variables = v\<rparr> = Inr b \<and>
      httpClient c (requestURL c) b 0 = HTTPResponse 429 b0 \<and>
      httpClient c (requestURL c) b 1 = HTTPResponse 429 b1 \<and>
      httpClient c (requestURL c) b 2 = HTTPResponse 200 b2 \<longrightarrow>
      attempts ?r = 3 \<and> sleeps ?r = [2 * Second, 4 * Second] \<and>
      result ?r = unwrap J 200 b2"
    using example by blast
  show ?thesis
    by (intro conjI bound unit form table incr ex)
qed

text \<open>
  The run for the answers 429, 429, 200 on a concrete client: three attempts, sleeps
  of 2 and 4 seconds, and the payload of the third answer.
\<close>

theorem doRequest_attempts_and_backoff_witness:
  "attempts (doRequest (fixed_json (no_errors ''payload'') None)
       (NewClient ''key'' (scripted [HTTPResponse 429 ''slow down'', HTTPResponse 429 ''slow down'']
          (HTTPResponse 200 ''ok''))) ''query { myself { id } }'' Map.empty) = 3 \<and>
   sleeps (doRequest (fixed_json (no_errors ''payload'') None)
       (NewClient ''key'' (scripted [HTTPResponse 429 ''slow down'', HTTPResponse 429 ''slow down'']
          (HTTPResponse 200 ''ok''))) ''query { myself { id } }'' Map.empty) =
     [2000000000, 4000000000] \<and>
   result (doRequest (fixed_json (no_errors ''payload'') None)
       (NewClient ''key'' (scripted [HTTPResponse 429 ''slow down'', HTTPResponse 429 ''slow down'']
          (HTTPResponse 200 ''ok''))) ''query { myself { id } }'' Map.empty) = Inr ''payload''"
proof -
  let ?J = "fixed_json (no_errors ''payload'') None"
  let ?c = "NewClient ''key'' (scripted [HTTPResponse 429 ''slow down'', HTTPResponse 429 ''slow down'']
          (HTTPResponse 200 ''ok''))"
  let ?q = "''query { myself { id } }''"
  let ?r = "doRequest ?J ?c ?q Map.empty"
  have given: "Marshal ?J \<lparr>Query = ?q, Variables = Map.empty\<rparr> = Inr ?q \<and>
      httpClient ?c (requestURL ?c) ?q 0 = HTTPResponse 429 ''slow down'' \<and>
      httpClient ?c (requestURL ?c) ?q 1 = HTTPResponse 429 ''slow down'' \<and>
      httpClient ?c (requestURL ?c) ?q 2 = HTTPResponse 200 ''ok''"
    by (simp add: fixed_json_def NewClient_def scripted_def)
  have "attempts ?r = 3 \<and> sleeps ?r = [2 * Second, 4 * Second] \<and>
      result ?r = unwrap ?J 200 ''ok''"
    using doRequest_attempts_and_backoff[of ?J ?c ?q Map.empty ?q "''slow down''"
        "''slow down''" "''ok''"] given
    by blast
  moreover have "unwrap ?J 200 ''ok'' = Inr ''payload''"
    by (simp add: unwrap_def fixed_json_def no_errors_def)
  ultimately show ?thesis
    by (simp add: Second_def)
qed

lemma doRequest_never_exhausted:
  "result (doRequest J c q v) \<noteq> Inl MaxRetriesExceeded"
proof (cases "Marshal J \<lparr>Query = q, Variables = v\<rparr>")
  case (Inl e)
  then show ?thesis by (simp add: doRequest_def)
next
  case (Inr b)
  have "0 < maxRetries" by (simp add: maxRetries_def)
  from loop_never_exhausted[OF this, of J c b "[]"] Inr show ?thesis
    by (simp add: doRequest_def)
qed

lemma doRequest_after_retries:
  assumes m: "Marshal J \<lparr>Query = q, Variables = v\<rparr> = Inr b"
    and k: "k < maxRetries"
    and retried: "\<And>i. i < k \<Longrightarrow>
       \<exists>rb. httpClient c (requestURL c) b i = HTTPResponse 429 rb \<or>
            httpClient c (requestURL c) b i = HTTPResponse 503 rb"
    and last: "httpClient c (requestURL c) b k = HTTPResponse status respBody"
    and stop: "\<not> ((status = 429 \<or> status = 503) \<and> k < maxRetries - 1)"
  shows "doRequest J c q v =
     \<lparr>result = unwrap J status respBody, attempts = k + 1,
      sleeps = map (\<lambda>i. baseDelay * 2 ^ i) [0 ..< k]\<rparr>"
proof -
  have "doRequest J c q v = doRequest_loop J c b 0 []"
    using m by (simp add: doRequest_def)
  also have "\<dots> = doRequest_loop J c b k (map (\<lambda>i. baseDelay * 2 ^ i) [0 ..< k])"
    using loop_skip_retries[OF k retried] by blast
  also have "\<dots> = \<lparr>result = unwrap J status respBody, attempts = k + 1,
                      sleeps = map (\<lambda>i. baseDelay * 2 ^ i) [0 ..< k]\<rparr>"
    by (rule loop_response[OF k last stop])
  finally show ?thesis .
qed

lemma doRequest_retries_exhausted:
  assumes m: "Marshal J \<lparr>Query = q, Variables = v\<rparr> = Inr b"
    and all: "\<And>i. i < 5 \<Longrightarrow>
       \<exists>rb. httpClient c (requestURL c) b i = HTTPResponse 429 rb \<or>
            httpClient c (requestURL c) b i = HTTPResponse 503 rb"
  shows "\<exists>status respBody.
     httpClient c (requestURL c) b 4 = HTTPResponse status respBody \<and>
     result (doRequest J c q v) = Inl (APIStatus status respBody) \<and>
     attempts (doRequest J c q v) = 5"
proof -
  obtain status respBody where
    last: "httpClient c (requestURL c) b 4 = HTTPResponse status respBody" and
    st: "status = 429 \<or> status = 503"
    using all[of 4] by auto
  have "doRequest J c q v =
     \<lparr>result = unwrap J status respBody, attempts = 4 + 1,
      sleeps = map (\<lambda>i. baseDelay * 2 ^ i) [0 ..< 4]\<rparr>"
    by (rule doRequest_after_retries[OF m _ _ last])
       (use all in \<open>simp_all add: maxRetries_def\<close>)
  moreover have "unwrap J status respBody = Inl (APIStatus status respBody)"
    using st by (auto simp: unwrap_def)
  ultimately show ?thesis using last by simp
qed

text \<open>
  Claim C1. When all 5 attempts of an exchange are answered with status 429, the
  claim expects the error \<open>max retries exceeded\<close>. On the fifth attempt the retry
  check falls through to the check of the status, so the run ends with the error
  \<open>API returned status 429\<close> and the body of the fifth answer, after four sleeps;
  the last statement of \<open>doRequest\<close> is never reached
  (\<open>doRequest_never_exhausted\<close>).
\<close>

theorem doRequest_five_rate_limits:
  "result (doRequest (fixed_json (no_errors ''payload'') None)
       (NewClient ''key'' (scripted [] (HTTPResponse 429 ''Too Many Requests'')))
       ''query { myself { id } }'' Map.empty) = Inl (APIStatus 429 ''Too Many Requests'') \<and>
   attempts (doRequest (fixed_json (no_errors ''payload'') None)
       (NewClient ''key'' (scripted [] (HTTPResponse 429 ''Too Many Requests'')))
       ''query { myself { id } }'' Map.empty) = 5 \<and>
   sleeps (doRequest (fixed_json (no_errors ''payload'') None)
       (NewClient ''key'' (scripted [] (HTTPResponse 429 ''Too Many Requests'')))
       ''query { myself { id } }'' Map.empty) =
     [2000000000, 4000000000, 8000000000, 16000000000] \<and>
   Error (APIStatus 429 ''Too Many Requests'') = ''API returned status 429: Too Many Requests'' \<and>
   Error MaxRetriesExceeded = ''max retries exceeded''"
proof -
  let ?J = "fixed_json (no_errors ''payload'') None"
  let ?c = "NewClient ''key'' (scripted [] (HTTPResponse 429 ''Too Many Requests''))"
  have "doRequest ?J ?c ''query { myself { id } }'' Map.empty =
     \<lparr>result = unwrap ?J 429 ''Too Many Requests'', attempts = 4 + 1,
      sleeps = map (\<lambda>i. baseDelay * 2 ^ i) [0 ..< 4]\<rparr>"
    by (rule doRequest_after_retries[where b = "''query { myself { id } }''"])
       (simp_all add: fixed_json_def NewClient_def scripted_def maxRetries_def)
  then show ?thesis
    by (simp add: unwrap_def upt_rec baseDelay_def Second_def decimal.simps digit_def)
qed

text \<open>
  Claim C7. When the answer that ends the retries has a status below 400 and its body
  decodes to an envelope whose \<open>errors\<close> array is not empty, \<open>doRequest\<close> fails with
  the error built from the message of the first entry alone: neither the other entries
  nor the \<open>data\<close> field have any part in the result.
\<close>

theorem doRequest_first_error_message:
  "Marshal J \<lparr>Query = q, Variables = v\<rparr> = Inr b \<Longrightarrow>
   k < 5 \<Longrightarrow>
   (\<forall>i<k. \<exists>rb. httpClient c (requestURL c) b i = HTTPResponse 429 rb \<or>
                httpClient c (requestURL c) b i = HTTPResponse 503 rb) \<Longrightarrow>
   httpClient c (requestURL c) b k = HTTPResponse status respBody \<Longrightarrow>
   status < 400 \<Longrightarrow>
   UnmarshalResponse J respBody = Inr \<lparr>Data = data, Errors = e # es\<rparr> \<Longrightarrow>
   result (doRequest J c q v) = Inl (GraphQLFailure (Message e)) \<and>
   Error (GraphQLFailure (Message e)) = ''GraphQL error: '' @ Message e"
proof -
  assume m: "Marshal J \<lparr>Query = q, Variables = v\<rparr> = Inr b"
    and k: "k < 5"
    and retried: "\<forall>i<k. \<exists>rb. httpClient c (requestURL c) b i = HTTPResponse 429 rb \<or>
                httpClient c (requestURL c) b i = HTTPResponse 503 rb"
    and last: "httpClient c (requestURL c) b k = HTTPResponse status respBody"
    and ok: "status < 400"
    and env: "UnmarshalResponse J respBody = Inr \<lparr>Data = data, Errors = e # es\<rparr>"
  have "doRequest J c q v =
     \<lparr>result = unwrap J status respBody, attempts = k + 1,
      sleeps = map (\<lambda>i. baseDelay * 2 ^ i) [0 ..< k]\<rparr>"
    by (rule doRequest_after_retries[OF m _ _ last])
       (use k retried ok in \<open>auto simp: maxRetries_def\<close>)
  moreover have "unwrap J status respBody = Inl (GraphQLFailure (Message e))"
    using ok env by (simp add: unwrap_def)
  ultimately show ?thesis by simp
qed

text \<open>
  An envelope with two error messages and a payload, received after one retry: the
  run fails with the first message.
\<close>

theorem doRequest_first_error_message_witness:
  "result (doRequest
      (fixed_json \<lparr>Data = ''{pod: {id: p1}}'',
                   Errors = [\<lparr>Message = ''Pod not found''\<rparr>, \<lparr>Message = ''second message''\<rparr>]\<rparr> None)
      (NewClient ''key'' (scripted [HTTPResponse 503 ''busy''] (HTTPResponse 200 ''ok'')))
      GetPod_query (podId_variables ''p1'')) = Inl (GraphQLFailure ''Pod not found'')"
  using doRequest_first_error_message[of
      "fixed_json \<lparr>Data = ''{pod: {id: p1}}'',
                   Errors = [\<lparr>Message = ''Pod not found''\<rparr>, \<lparr>Message = ''second message''\<rparr>]\<rparr> None"
      GetPod_query "podId_variables ''p1''" GetPod_query 1
      "NewClient ''key'' (scripted [HTTPResponse 503 ''busy''] (HTTPResponse 200 ''ok''))"
      200 "''ok''" "''{pod: {id: p1}}''" "\<lparr>Message = ''Pod not found''\<rparr>"
      "[\<lparr>Message = ''second message''\<rparr>]"]
  by (simp add: fixed_json_def NewClient_def scripted_def)

section \<open>Properties of the pod resource\<close>

lemma HasPrefix_iff: "HasPrefix s p \<longleftrightarrow> (\<exists>ss. s = p @ ss)"
  by (induction s p rule: HasPrefix.induct) auto

lemma Contains_iff: "Contains s substr \<longleftrightarrow> (\<exists>ps ss. s = ps @ substr @ ss)"
proof (induction s)
  case Nil
  show ?case by auto
next
  case (Cons c s)
  show ?case
  proof
    assume "Contains (c # s) substr"
    then consider "HasPrefix (c # s) substr" | "Contains s substr" by auto
    then show "\<exists>ps ss. c # s = ps @ substr @ ss"
    proof cases
      case 1
      then obtain ss where "c # s = substr @ ss" by (auto simp: HasPrefix_iff)
      then have "c # s = [] @ substr @ ss" by simp
      then show ?thesis by blast
    next
      case 2
      then obtain ps ss where "s = ps @ substr @ ss" using Cons.IH by blast
      then have "c # s = (c # ps) @ substr @ ss" by simp
      then show ?thesis by blast
    qed
  next
    assume "\<exists>ps ss. c # s = ps @ substr @ ss"
    then obtain ps ss where eq: "c # s = ps @ substr @ ss" by blast
    show "Contains (c # s) substr"
    proof (cases ps)
      case Nil
      with eq have "HasPrefix (c # s) substr" by (auto simp: HasPrefix_iff)
      then show ?thesis by simp
    next
      case (Cons p ps')
      with eq have "s = ps' @ substr @ ss" by simp
      then have "Contains s substr" using Cons.IH by blast
      then show ?thesis by simp
    qed
  qed
qed

lemma Contains_suffix_of_substr:
  "Contains s (p @ substr) \<Longrightarrow> Contains s substr"
proof -
  assume "Contains s (p @ substr)"
  then obtain ps ss where "s = ps @ (p @ substr) @ ss" by (auto simp: Contains_iff)
  then have "s = (ps @ p) @ substr @ ss" by simp
  then show ?thesis unfolding Contains_iff by blast
qed

lemma Pod_not_found_is_not_found:
  "Contains s ''Pod not found'' \<Longrightarrow> Contains s ''not found''"
  using Contains_suffix_of_substr[of s "''Pod ''" "''not found''"] by simp

text \<open>
  Claim C5. When the fetch fails with an error whose message contains \<open>not found\<close>,
  \<open>Read\<close> removes the resource from the state and adds no diagnostic; when the
  terminate operation fails with such an error, \<open>Delete\<close> adds no diagnostic. For
  every other error each of them adds one error diagnostic that carries the message
  (and \<open>Read\<close> leaves the prior state in place).
\<close>

theorem not_found_is_absence_in_Read_and_Delete:
  "(GetPod J c (ValueString (ID data)) = Inl err \<longrightarrow>
      Read J c data =
        (if Contains (Error err) ''not found''
         then \<lparr>State = None, Diagnostics = []\<rparr>
         else \<lparr>State = Some data,
               Diagnostics = [AddError ''Client Error'' (''Unable to read pod: '' @ Error err)]\<rparr>)) \<and>
   (TerminatePod J c (ValueString (ID data)) = Some err' \<longrightarrow>
      Delete J c data =
        (if Contains (Error err') ''not found''
         then []
         else [AddError ''Client Error'' (''Unable to terminate pod: '' @ Error err')]))"
  using Pod_not_found_is_not_found[of "Error err"]
  by (auto simp: Read_def Delete_def)

lemma doRequest_one_answer:
  assumes "Marshal J \<lparr>Query = q, Variables = v\<rparr> = Inr b"
    and "httpClient c (requestURL c) b 0 = HTTPResponse status respBody"
    and "status \<noteq> 429" and "status \<noteq> 503"
  shows "result (doRequest J c q v) = unwrap J status respBody"
  using doRequest_after_retries[OF assms(1) _ _ assms(2)] assms(3,4)
  by (simp add: maxRetries_def)

lemma fixed_json_fields [simp]:
  "Marshal (fixed_json gqlResp pod) reqBody = Inr (Query reqBody)"
  "UnmarshalResponse (fixed_json gqlResp pod) respBody = Inr gqlResp"
  "UnmarshalPod (fixed_json gqlResp pod) name data = Inr pod"
  by (simp_all add: fixed_json_def)

lemma scripted_final [simp]:
  "httpClient (NewClient key (scripted [] final)) url body attempt = final"
  by (simp add: NewClient_def scripted_def)

text \<open>
  Four concrete runs: a fetch that finds no pod (\<open>pod not found: p1\<close>), a terminate
  refused with the message \<open>Pod not found\<close>, and a fetch and a terminate answered
  with status 500.
\<close>

theorem not_found_is_absence_in_Read_and_Delete_witness:
  "Read (fixed_json (no_errors ''{pod: null}'') None)
        (NewClient ''key'' (scripted [] (HTTPResponse 200 ''ok''))) (local_state Null) =
     \<lparr>State = None, Diagnostics = []\<rparr> \<and>
   Delete (fixed_json \<lparr>Data = '''', Errors = [\<lparr>Message = ''Pod not found''\<rparr>]\<rparr> None)
        (NewClient ''key'' (scripted [] (HTTPResponse 200 ''ok''))) (local_state Null) = [] \<and>
   Read (fixed_json (no_errors ''{pod: null}'') None)
        (NewClient ''key'' (scripted [] (HTTPResponse 500 ''Internal Server Error'')))
        (local_state Null) =
     \<lparr>State = Some (local_state Null),
      Diagnostics = [AddError ''Client Error''
        ''Unable to read pod: API returned status 500: Internal Server Error'']\<rparr> \<and>
   Delete (fixed_json (no_errors ''{pod: null}'') None)
        (NewClient ''key'' (scripted [] (HTTPResponse 500 ''Internal Server Error'')))
        (local_state Null) =
     [AddError ''Client Error''
        ''Unable to terminate pod: failed to terminate pod: API returned status 500: Internal Server Error'']"
proof -
  let ?absent = "fixed_json (no_errors ''{pod: null}'') None"
  let ?refused = "fixed_json \<lparr>Data = '''', Errors = [\<lparr>Message = ''Pod not found''\<rparr>]\<rparr> None"
  let ?up = "NewClient ''key'' (scripted [] (HTTPResponse 200 ''ok''))"
  let ?down = "NewClient ''key'' (scripted [] (HTTPResponse 500 ''Internal Server Error''))"
  let ?data = "local_state Null"
  have id: "ValueString (ID ?data) = ''p1''"
    by (simp add: local_state_def)
  have "result (doRequest ?absent ?up GetPod_query (podId_variables ''p1'')) =
        unwrap ?absent 200 ''ok''"
    by (rule doRequest_one_answer[where b = GetPod_query]) simp_all
  then have fetch_absent: "GetPod ?absent ?up (ValueString (ID ?data)) = Inl (PodNotFound ''p1'')"
    by (simp add: id GetPod_def unwrap_def no_errors_def)
  have "result (doRequest ?refused ?up TerminatePod_query (podId_variables ''p1'')) =
        unwrap ?refused 200 ''ok''"
    by (rule doRequest_one_answer[where b = TerminatePod_query]) simp_all
  then have terminate_refused: "TerminatePod ?refused ?up (ValueString (ID ?data)) =
        Some (TerminatePodFailed (GraphQLFailure ''Pod not found''))"
    by (simp add: id TerminatePod_def unwrap_def)
  have "result (doRequest ?absent ?down GetPod_query (podId_variables ''p1'')) =
        unwrap ?absent 500 ''Internal Server Error''"
    by (rule doRequest_one_answer[where b = GetPod_query]) simp_all
  then have fetch_down: "GetPod ?absent ?down (ValueString (ID ?data)) =
        Inl (APIStatus 500 ''Internal Server Error'')"
    by (simp add: id GetPod_def unwrap_def)
  have "result (doRequest ?absent ?down TerminatePod_query (podId_variables ''p1'')) =
        unwrap ?absent 500 ''Internal Server Error''"
    by (rule doRequest_one_answer[where b = TerminatePod_query]) simp_all
  then have terminate_down: "TerminatePod ?absent ?down (ValueString (ID ?data)) =
        Some (TerminatePodFailed (APIStatus 500 ''Internal Server Error''))"
    by (simp add: id TerminatePod_def unwrap_def)
  have r1: "Read ?absent ?up ?data = \<lparr>State = None, Diagnostics = []\<rparr>"
    using not_found_is_absence_in_Read_and_Delete[of ?absent ?up ?data "PodNotFound ''p1''"]
      fetch_absent by simp
  have d1: "Delete ?refused ?up ?data = []"
    using not_found_is_absence_in_Read_and_Delete[of ?refused ?up ?data _
        "TerminatePodFailed (GraphQLFailure ''Pod not found'')"]
      terminate_refused by simp
  have r2: "Read ?absent ?down ?data =
     \<lparr>State = Some ?data,
      Diagnostics = [AddError ''Client Error''
        ''Unable to read pod: API returned status 500: Internal Server Error'']\<rparr>"
    using not_found_is_absence_in_Read_and_Delete[of ?absent ?down ?data
        "APIStatus 500 ''Internal Server Error''"]
      fetch_down by (simp add: decimal.simps digit_def)
  have d2: "Delete ?absent ?down ?data =
     [AddError ''Client Error''
        ''Unable to terminate pod: failed to terminate pod: API returned status 500: Internal Server Error'']"
    using not_found_is_absence_in_Read_and_Delete[of ?absent ?down ?data _
        "TerminatePodFailed (APIStatus 500 ''Internal Server Error'')"]
      terminate_down by (simp add: decimal.simps digit_def)
  show ?thesis
    by (intro conjI r1 d1 r2 d2)
qed

lemma Read_state_write_only:
  "Env (Read_state pod data) = Env data \<and>
   MinVcpuCount (Read_state pod data) = MinVcpuCount data \<and>
   MinMemoryInGb (Read_state pod data) = MinMemoryInGb data \<and>
   NetworkVolumeID (Read_state pod data) = NetworkVolumeID data \<and>
   TemplateID (Read_state pod data) = TemplateID data \<and>
   DataCenterID (Read_state pod data) = DataCenterID data \<and>
   SupportPublicIP (Read_state pod data) = SupportPublicIP data \<and>
   StartSSH (Read_state pod data) = StartSSH data"
  by (simp add: Read_state_def Let_def split: option.split)

lemma Read_state_CloudType:
  "CloudType (Read_state pod data) =
     (case CloudType data of Known cloud \<Rightarrow> Known cloud | _ \<Rightarrow> Known ''ALL'')"
  by (cases "CloudType data") (simp_all add: Read_state_def Let_def split: option.split)

lemma Read_tracked:
  "State (Read J c data) = Some data' \<Longrightarrow>
   data' = data \<or> (\<exists>pod. GetPod J c (ValueString (ID data)) = Inr pod \<and> data' = Read_state pod data)"
  by (auto simp: Read_def split: sum.splits if_splits)

lemma Read_write_only:
  assumes "State (Read J c data) = Some data'"
  shows "Env data' = Env data \<and>
   MinVcpuCount data' = MinVcpuCount data \<and>
   MinMemoryInGb data' = MinMemoryInGb data \<and>
   NetworkVolumeID data' = NetworkVolumeID data \<and>
   TemplateID data' = TemplateID data \<and>
   DataCenterID data' = DataCenterID data \<and>
   SupportPublicIP data' = SupportPublicIP data \<and>
   StartSSH data' = StartSSH data"
proof -
  from Read_tracked[OF assms] consider "data' = data"
    | pod where "data' = Read_state pod data" by blast
  then show ?thesis
  proof cases
    case 1
    then show ?thesis by simp
  next
    case 2
    then show ?thesis using Read_state_write_only[of pod data] by simp
  qed
qed

lemma Reads_write_only:
  "Reads J cs data = Some data' \<Longrightarrow>
   Env data' = Env data \<and>
   MinVcpuCount data' = MinVcpuCount data \<and>
   MinMemoryInGb data' = MinMemoryInGb data \<and>
   NetworkVolumeID data' = NetworkVolumeID data \<and>
   TemplateID data' = TemplateID data \<and>
   DataCenterID data' = DataCenterID data \<and>
   SupportPublicIP data' = SupportPublicIP data \<and>
   StartSSH data' = StartSSH data"
proof (induction cs arbitrary: data)
  case Nil
  then show ?case by simp
next
  case (Cons c cs)
  from Cons.prems obtain mid where
    first: "State (Read J c data) = Some mid" and rest: "Reads J cs mid = Some data'"
    by (auto split: option.splits)
  from Cons.IH[OF rest] Read_write_only[OF first] show ?case by simp
qed

text \<open>
  Claim C3. For every prior state and every fetched pod, a successful \<open>Read\<close> stores
  a state whose fields \<open>env\<close>, \<open>min_vcpu_count\<close>, \<open>min_memory_in_gb\<close>,
  \<open>network_volume_id\<close>, \<open>template_id\<close>, \<open>data_center_id\<close>, \<open>support_public_ip\<close> and
  \<open>start_ssh\<close> are those of the prior state, whatever the pod holds; and after any
  number of consecutive calls of \<open>Read\<close> that leave the resource tracked, these fields
  still are those of the first prior state.
\<close>

theorem Read_keeps_write_only_fields:
  "(GetPod J c (ValueString (ID data)) = Inr pod \<longrightarrow>
      Read J c data = \<lparr>State = Some (Read_state pod data), Diagnostics = []\<rparr> \<and>
      Env (Read_state pod data) = Env data \<and>
      MinVcpuCount (Read_state pod data) = MinVcpuCount data \<and>
      MinMemoryInGb (Read_state pod data) = MinMemoryInGb data \<and>
      NetworkVolumeID (Read_state pod data) = NetworkVolumeID data \<and>
      TemplateID (Read_state pod data) = TemplateID data \<and>
      DataCenterID (Read_state pod data) = DataCenterID data \<and>
      SupportPublicIP (Read_state pod data) = SupportPublicIP data \<and>
      StartSSH (Read_state pod data) = StartSSH data) \<and>
   (Reads J cs data = Some data' \<longrightarrow>
      Env data' = Env data \<and>
      MinVcpuCount data' = MinVcpuCount data \<and>
      MinMemoryInGb data' = MinMemoryInGb data \<and>
      NetworkVolumeID data' = NetworkVolumeID data \<and>
      TemplateID data' = TemplateID data \<and>
      DataCenterID data' = DataCenterID data \<and>
      SupportPublicIP data' = SupportPublicIP data \<and>
      StartSSH data' = StartSSH data)"
proof (intro conjI impI)
  assume "GetPod J c (ValueString (ID data)) = Inr pod"
  then show "Read J c data = \<lparr>State = Some (Read_state pod data), Diagnostics = []\<rparr>"
    by (simp add: Read_def)
qed (use Read_state_write_only[of pod data] Reads_write_only[of J cs data data'] in simp_all)

lemma GetPod_fixture:
  "GetPod (fixed_json (no_errors ''{pod: {}}'') (Some pod))
          (NewClient ''key'' (scripted [] (HTTPResponse 200 ''ok''))) id' = Inr pod"
proof -
  let ?J = "fixed_json (no_errors ''{pod: {}}'') (Some pod)"
  let ?c = "NewClient ''key'' (scripted [] (HTTPResponse 200 ''ok''))"
  have "result (doRequest ?J ?c GetPod_query (podId_variables id')) = unwrap ?J 200 ''ok''"
    by (rule doRequest_one_answer[where b = GetPod_query]) simp_all
  then show ?thesis
    by (simp add: GetPod_def unwrap_def no_errors_def)
qed

text \<open>
  Two consecutive reads of a pod without environment entries: the eight fields of the
  state are the ones it started with.
\<close>

theorem Read_keeps_write_only_fields_witness:
  "Reads (fixed_json (no_errors ''{pod: {}}'') (Some remote_pod))
         [NewClient ''key'' (scripted [] (HTTPResponse 200 ''ok'')),
          NewClient ''key'' (scripted [] (HTTPResponse 200 ''ok''))]
         (local_state Null) =
     Some (Read_state remote_pod (Read_state remote_pod (local_state Null))) \<and>
   Pod_Env remote_pod = [] \<and>
   Env (Read_state remote_pod (Read_state remote_pod (local_state Null))) =
     Known [(''TEST_VAR'', Known ''test_value'')] \<and>
   MinVcpuCount (Read_state remote_pod (Read_state remote_pod (local_state Null))) = Known 2 \<and>
   MinMemoryInGb (Read_state remote_pod (Read_state remote_pod (local_state Null))) = Known 8 \<and>
   NetworkVolumeID (Read_state remote_pod (Read_state remote_pod (local_state Null))) =
     Known ''nv1'' \<and>
   TemplateID (Read_state remote_pod (Read_state remote_pod (local_state Null))) = Known ''t1'' \<and>
   DataCenterID (Read_state remote_pod (Read_state remote_pod (local_state Null))) =
     Known ''dc1'' \<and>
   SupportPublicIP (Read_state remote_pod (Read_state remote_pod (local_state Null))) =
     Known False \<and>
   StartSSH (Read_state remote_pod (Read_state remote_pod (local_state Null))) = Known True"
proof -
  let ?J = "fixed_json (no_errors ''{pod: {}}'') (Some remote_pod)"
  let ?c = "NewClient ''key'' (scripted [] (HTTPResponse 200 ''ok''))"
  let ?d0 = "local_state Null"
  let ?d1 = "Read_state remote_pod ?d0"
  let ?d2 = "Read_state remote_pod ?d1"
  have r1: "Read ?J ?c ?d0 = \<lparr>State = Some ?d1, Diagnostics = []\<rparr>"
    using Read_keeps_write_only_fields[of ?J ?c ?d0 remote_pod] GetPod_fixture by simp
  have r2: "Read ?J ?c ?d1 = \<lparr>State = Some ?d2, Diagnostics = []\<rparr>"
    using Read_keeps_write_only_fields[of ?J ?c ?d1 remote_pod] GetPod_fixture by simp
  have seq: "Reads ?J [?c, ?c] ?d0 = Some ?d2"
    by (simp add: r1 r2)
  have "Env ?d2 = Env ?d0 \<and> MinVcpuCount ?d2 = MinVcpuCount ?d0 \<and>
      MinMemoryInGb ?d2 = MinMemoryInGb ?d0 \<and> NetworkVolumeID ?d2 = NetworkVolumeID ?d0 \<and>
      TemplateID ?d2 = TemplateID ?d0 \<and> DataCenterID ?d2 = DataCenterID ?d0 \<and>
      SupportPublicIP ?d2 = SupportPublicIP ?d0 \<and> StartSSH ?d2 = StartSSH ?d0"
    using Read_keeps_write_only_fields[of ?J ?c ?d0 remote_pod "[?c, ?c]" ?d2] seq by blast
  then show ?thesis
    using seq by (simp add: local_state_def remote_pod_def)
qed

text \<open>
  Claim C4, as stated, fails: \<open>Read\<close> never looks at the cloud type of the fetched
  pod. With the prior value \<open>SECURE\<close> and a fetched pod whose cloud type is
  \<open>COMMUNITY\<close>, the state keeps \<open>SECURE\<close>, where the first tier of the claim would
  take the remote value.
\<close>

theorem Read_cloud_type_ignores_remote:
  "Pod_CloudType remote_pod = ''COMMUNITY'' \<and>
   GetPod (fixed_json (no_errors ''{pod: {}}'') (Some remote_pod))
          (NewClient ''key'' (scripted [] (HTTPResponse 200 ''ok''))) ''p1'' = Inr remote_pod \<and>
   map_option CloudType
     (State (Read (fixed_json (no_errors ''{pod: {}}'') (Some remote_pod))
                  (NewClient ''key'' (scripted [] (HTTPResponse 200 ''ok'')))
                  (local_state (Known ''SECURE'')))) = Some (Known ''SECURE'') \<and>
   map_option CloudType
     (State (Read (fixed_json (no_errors ''{pod: {}}'') (Some remote_pod))
                  (NewClient ''key'' (scripted [] (HTTPResponse 200 ''ok'')))
                  (local_state (Known ''SECURE'')))) \<noteq> Some (Known ''COMMUNITY'')"
proof -
  have "CloudType (Read_state remote_pod (local_state (Known ''SECURE''))) = Known ''SECURE''"
    by (simp add: Read_state_CloudType local_state_def)
  then show ?thesis
    by (simp add: Read_def GetPod_fixture remote_pod_def)
qed

text \<open>
  Claim C4, amended. A successful \<open>Read\<close> sets \<open>cloud_type\<close> from the prior state
  alone: the prior value when it is neither null nor unknown, else the default
  \<open>ALL\<close>. The cloud type of the fetched pod has no part in it.
\<close>

theorem Read_cloud_type_precedence:
  "GetPod J c (ValueString (ID data)) = Inr pod \<Longrightarrow>
   Diagnostics (Read J c data) = [] \<and>
   map_option CloudType (State (Read J c data)) =
     Some (if IsNull (CloudType data) \<or> IsUnknown (CloudType data)
           then Known ''ALL'' else CloudType data)"
  by (cases "CloudType data") (simp_all add: Read_def Read_state_CloudType)

text \<open>
  With the remote cloud type absent: the prior value \<open>SECURE\<close> is retained, and a null
  or unknown prior value becomes the default \<open>ALL\<close>.
\<close>

theorem Read_cloud_type_precedence_witness:
  "map_option CloudType
     (State (Read (fixed_json (no_errors ''{pod: {}}'') (Some (remote_pod\<lparr>Pod_CloudType := ''''\<rparr>)))
                  (NewClient ''key'' (scripted [] (HTTPResponse 200 ''ok'')))
                  (local_state (Known ''SECURE'')))) = Some (Known ''SECURE'') \<and>
   map_option CloudType
     (State (Read (fixed_json (no_errors ''{pod: {}}'') (Some (remote_pod\<lparr>Pod_CloudType := ''''\<rparr>)))
                  (NewClient ''key'' (scripted [] (HTTPResponse 200 ''ok'')))
                  (local_state Null))) = Some (Known ''ALL'') \<and>
   map_option CloudType
     (State (Read (fixed_json (no_errors ''{pod: {}}'') (Some (remote_pod\<lparr>Pod_CloudType := ''''\<rparr>)))
                  (NewClient ''key'' (scripted [] (HTTPResponse 200 ''ok'')))
                  (local_state Unknown))) = Some (Known ''ALL'')"
proof -
  let ?J = "fixed_json (no_errors ''{pod: {}}'') (Some (remote_pod\<lparr>Pod_CloudType := ''''\<rparr>))"
  let ?c = "NewClient ''key'' (scripted [] (HTTPResponse 200 ''ok''))"
  have fetch: "GetPod ?J ?c (ValueString (ID (local_state cloud))) =
      Inr (remote_pod\<lparr>Pod_CloudType := ''''\<rparr>)" for cloud
    by (rule GetPod_fixture)
  show ?thesis
    using Read_cloud_type_precedence[OF fetch[of "Known ''SECURE''"]]
      Read_cloud_type_precedence[OF fetch[of Null]]
      Read_cloud_type_precedence[OF fetch[of Unknown]]
    by (simp add: local_state_def)
qed

section \<open>Properties of the resource operations\<close>

lemma GetGpuType_query_shape:
  \<open>GetGpuType_query id' =
     ''query GpuTypes {'' @ ''\<newline>'' @ indent 2 ''gpuTypes(input: {id: "'' @ id' @
     (''"}) {'' @ ''\<newline>'' @ document [
        indent 3 ''id'',
        indent 3 ''displayName'',
        indent 3 ''memoryInGb'',
        indent 3 ''secureCloud'',
        indent 3 ''communityCloud'',
        indent 2 ''}'',
        indent 1 ''}''])\<close>
  by (simp add: GetGpuType_query_def indent_def)

lemma GetGpuType_query_embeds_id: "Contains (GetGpuType_query id') id'"
proof -
  obtain before after where "GetGpuType_query id' = before @ id' @ after"
    using GetGpuType_query_shape[of id'] by (metis append.assoc)
  then show ?thesis
    unfolding Contains_iff by blast
qed

lemma GetGpuType_query_injective:
  "GetGpuType_query a = GetGpuType_query b \<Longrightarrow> a = b"
  unfolding GetGpuType_query_shape by simp

text \<open>
  Claim C2. The claim expects the filter id of \<open>GetGpuType\<close> to travel in the
  variables of the request and the document to be the same for every id. The code
  concatenates the id into the document and sends no variables: the documents for two
  ids differ, the variables hold no \<open>id\<close>, and an id with a double quote in it changes
  the shape of the query. \<open>GetPod\<close>, for one, does pass its id in the variables.
\<close>

theorem GetGpuType_embeds_id_in_document:
  \<open>GetGpuType_query ''NVIDIA RTX A4000'' \<noteq> GetGpuType_query ''NVIDIA RTX A6000'' \<and>
   GetGpuType_variables ''NVIDIA RTX A4000'' ''id'' = None \<and>
   podId_variables ''p1'' ''input'' = Some (JObject [''podId'' \<mapsto> JString ''p1'']) \<and>
   GetGpuType_query ''A"}) { id } pods: gpuTypes(input: {id: "B'' = document [
     ''query GpuTypes {'',
     indent 2 ''gpuTypes(input: {id: "A"}) { id } pods: gpuTypes(input: {id: "B"}) {'',
     indent 3 ''id'',
     indent 3 ''displayName'',
     indent 3 ''memoryInGb'',
     indent 3 ''secureCloud'',
     indent 3 ''communityCloud'',
     indent 2 ''}'',
     indent 1 ''}'']\<close>
  using GetGpuType_query_injective[of "''NVIDIA RTX A4000''" "''NVIDIA RTX A6000''"]
  by (auto simp: GetGpuType_variables_def podId_variables_def GetGpuType_query_def indent_def)

lemma HasPrefix_single: "HasPrefix s [c] \<longleftrightarrow> (\<exists>t. s = c # t)"
  by (cases s) auto

lemma Index_single:
  "Index s [c] =
     (if c \<in> set s then Some (length (takeWhile (\<lambda>x. x \<noteq> c) s)) else None)"
  by (induction s) (auto simp: HasPrefix_single)

lemma SplitN_first_separator:
  "SplitN s [c] 2 =
     (if c \<in> set s
      then [takeWhile (\<lambda>x. x \<noteq> c) s, drop 1 (dropWhile (\<lambda>x. x \<noteq> c) s)]
      else [s])"
proof -
  have two: "(2::nat) = Suc (Suc 0)" by simp
  have "take (length (takeWhile P s)) s = takeWhile P s" for P :: "char \<Rightarrow> bool"
    by (induction s) auto
  moreover have "drop (length (takeWhile P s) + 1) s = drop 1 (dropWhile P s)"
    for P :: "char \<Rightarrow> bool"
    by (induction s) auto
  ultimately show ?thesis
    unfolding two by (simp add: Index_single)
qed

lemma takeWhile_no_separator:
  "c \<notin> set k \<Longrightarrow> takeWhile (\<lambda>x. x \<noteq> c) k = k"
  by (induction k) auto

lemma dropWhile_no_separator:
  "c \<notin> set k \<Longrightarrow> dropWhile (\<lambda>x. x \<noteq> c) k = []"
  by (induction k) auto

lemma takeWhile_first_separator:
  "c \<notin> set k \<Longrightarrow> takeWhile (\<lambda>x. x \<noteq> c) (k @ c # v) = k"
  by (induction k) auto

lemma dropWhile_first_separator:
  "c \<notin> set k \<Longrightarrow> dropWhile (\<lambda>x. x \<noteq> c) (k @ c # v) = c # v"
  by (induction k) auto

lemma EnvVars_append_eq:
  "EnvVars_append stringArray e =
     e @ map (\<lambda>s. \<lparr>Key = takeWhile (\<lambda>x. x \<noteq> CHR ''='') s,
                    Value = drop 1 (dropWhile (\<lambda>x. x \<noteq> CHR ''='') s)\<rparr>) stringArray"
proof (induction stringArray arbitrary: e)
  case Nil
  show ?case by simp
next
  case (Cons s stringArray)
  show ?case
  proof (cases "CHR ''='' \<in> set s")
    case True
    then show ?thesis
      by (simp add: Cons.IH SplitN_first_separator)
  next
    case False
    then show ?thesis
      by (simp add: Cons.IH SplitN_first_separator takeWhile_no_separator
          dropWhile_no_separator)
  qed
qed

text \<open>
  Claim C8. Decoding a string array never fails and maps each element, in order, to
  the record whose key is the text before the first \<open>=\<close> and whose value is the text
  after it: \<open>k=v\<close> with no \<open>=\<close> in \<open>k\<close> gives the key \<open>k\<close> and the value \<open>v\<close>, an
  element with no \<open>=\<close> gives the whole element as key with an empty value, and
  \<open>["A=b","C="]\<close> gives \<open>[{A,b},{C,""}]\<close>.
\<close>

theorem EnvVars_decode_splits_at_first_equals:
  "(UnmarshalStrings J data = Inr stringArray \<longrightarrow>
      EnvVars_UnmarshalJSON J data =
        Inr (map (\<lambda>s. \<lparr>Key = takeWhile (\<lambda>x. x \<noteq> CHR ''='') s,
                        Value = drop 1 (dropWhile (\<lambda>x. x \<noteq> CHR ''='') s)\<rparr>) stringArray)) \<and>
   (CHR ''='' \<notin> set k \<longrightarrow>
      EnvVars_append [k @ ''='' @ v] [] = [\<lparr>Key = k, Value = v\<rparr>] \<and>
      EnvVars_append [k] [] = [\<lparr>Key = k, Value = ''''\<rparr>]) \<and>
   EnvVars_append [''A=b'', ''C=''] [] = [\<lparr>Key = ''A'', Value = ''b''\<rparr>, \<lparr>Key = ''C'', Value = ''''\<rparr>]"
proof (intro conjI impI)
  assume "UnmarshalStrings J data = Inr stringArray"
  then show "EnvVars_UnmarshalJSON J data =
        Inr (map (\<lambda>s. \<lparr>Key = takeWhile (\<lambda>x. x \<noteq> CHR ''='') s,
                        Value = drop 1 (dropWhile (\<lambda>x. x \<noteq> CHR ''='') s)\<rparr>) stringArray)"
    by (simp add: EnvVars_UnmarshalJSON_def EnvVars_append_eq)
next
  assume k: "CHR ''='' \<notin> set k"
  then show "EnvVars_append [k @ ''='' @ v] [] = [\<lparr>Key = k, Value = v\<rparr>]"
    by (simp add: EnvVars_append_eq takeWhile_first_separator dropWhile_first_separator)
  from k show "EnvVars_append [k] [] = [\<lparr>Key = k, Value = []\<rparr>]"
    by (simp add: EnvVars_append_eq takeWhile_no_separator dropWhile_no_separator)
next
  show "EnvVars_append [''A=b'', ''C=''] [] =
      [\<lparr>Key = ''A'', Value = ''b''\<rparr>, \<lparr>Key = ''C'', Value = ''''\<rparr>]"
    by (simp add: EnvVars_append_eq)
qed

text \<open>
  A decoder that yields the string array \<open>A=b\<close>, \<open>C=\<close>, \<open>PLAIN\<close>, and an element with
  two separators.
\<close>

theorem EnvVars_decode_splits_at_first_equals_witness:
  "EnvVars_UnmarshalJSON (fixed_json (no_errors '''') None) ''[A=b, C=, PLAIN]'' =
     Inr [\<lparr>Key = ''A'', Value = ''b''\<rparr>, \<lparr>Key = ''C'', Value = ''''\<rparr>,
          \<lparr>Key = ''PLAIN'', Value = ''''\<rparr>] \<and>
   EnvVars_append [''PATH=/bin=x''] [] = [\<lparr>Key = ''PATH'', Value = ''/bin=x''\<rparr>] \<and>
   EnvVars_append [''PATH''] [] = [\<lparr>Key = ''PATH'', Value = ''''\<rparr>]"
  using EnvVars_decode_splits_at_first_equals[of "fixed_json (no_errors '''') None"
      "''[A=b, C=, PLAIN]''" "[''A=b'', ''C='', ''PLAIN'']" "''PATH''" "''/bin=x''"]
  by (simp add: fixed_json_def)

lemma conditional_entry:
  "(if b then m(k \<mapsto> x) else m) = m ++ (\<lambda>k'. if b \<and> k' = k then Some x else None)"
  by (auto simp: map_add_def)

lemma CreatePod_inputMap_optional_keys:
  "CreatePod_inputMap input ''supportPublicIp'' =
     (if PodInput_SupportPublicIP input then Some (JBool True) else None) \<and>
   CreatePod_inputMap input ''startSsh'' =
     (if PodInput_StartSSH input then Some (JBool True) else None) \<and>
   CreatePod_inputMap input ''minVcpuCount'' =
     (if PodInput_MinVcpuCount input > 0 then Some (JInt (PodInput_MinVcpuCount input)) else None) \<and>
   CreatePod_inputMap input ''minMemoryInGb'' =
     (if PodInput_MinMemoryInGb input > 0 then Some (JInt (PodInput_MinMemoryInGb input)) else None)"
  unfolding CreatePod_inputMap_def conditional_entry
  unfolding Let_def
  by (simp add: map_add_def)

lemma conditional_assignment:
  "(if b then r\<lparr>PodInput_CloudType := s\<rparr> else r) =
     PodInput_CloudType_update (\<lambda>old. if b then s else old) r"
  "(if b then r\<lparr>PodInput_Ports := s\<rparr> else r) =
     PodInput_Ports_update (\<lambda>old. if b then s else old) r"
  "(if b then r\<lparr>PodInput_VolumeMountPath := s\<rparr> else r) =
     PodInput_VolumeMountPath_update (\<lambda>old. if b then s else old) r"
  "(if b then r\<lparr>PodInput_DockerArgs := s\<rparr> else r) =
     PodInput_DockerArgs_update (\<lambda>old. if b then s else old) r"
  "(if b then r\<lparr>PodInput_MinVcpuCount := n\<rparr> else r) =
     PodInput_MinVcpuCount_update (\<lambda>old. if b then n else old) r"
  "(if b then r\<lparr>PodInput_MinMemoryInGb := n\<rparr> else r) =
     PodInput_MinMemoryInGb_update (\<lambda>old. if b then n else old) r"
  "(if b then r\<lparr>PodInput_NetworkVolumeID := s\<rparr> else r) =
     PodInput_NetworkVolumeID_update (\<lambda>old. if b then s else old) r"
  "(if b then r\<lparr>PodInput_TemplateID := s\<rparr> else r) =
     PodInput_TemplateID_update (\<lambda>old. if b then s else old) r"
  "(if b then r\<lparr>PodInput_DataCenterID := s\<rparr> else r) =
     PodInput_DataCenterID_update (\<lambda>old. if b then s else old) r"
  "(if b then r\<lparr>PodInput_SupportPublicIP := f\<rparr> else r) =
     PodInput_SupportPublicIP_update (\<lambda>old. if b then f else old) r"
  "(if b then r\<lparr>PodInput_StartSSH := f\<rparr> else r) =
     PodInput_StartSSH_update (\<lambda>old. if b then f else old) r"
  by (cases b; simp)+

lemma Create_input_fields:
  "Create_input data =
     (case (if \<not> IsNull (Env data) then ElementsAs (Env data) else Inr []) of
        Inl diags \<Rightarrow> Inl diags
      | Inr envMap \<Rightarrow>
          Inr \<lparr>PodInput_Name = ValueString (Name data),
               PodInput_ImageName = ValueString (ImageName data),
               PodInput_GpuTypeID = ValueString (GpuTypeID data),
               PodInput_GpuTypeIDs = [],
               PodInput_GpuCount = ValueInt64 (GpuCount data),
               PodInput_VolumeInGb = ValueInt64 (VolumeInGb data),
               PodInput_ContainerDiskInGb = ValueInt64 (ContainerDiskInGb data),
               PodInput_CloudType = ValueString (CloudType data),
               PodInput_Ports = ValueString (Ports data),
               PodInput_VolumeMountPath = ValueString (VolumeMountPath data),
               PodInput_DockerArgs = ValueString (DockerArgs data),
               PodInput_Env = map (\<lambda>(k, v). \<lparr>Key = k, Value = v\<rparr>) envMap,
               PodInput_MinVcpuCount = ValueInt64 (MinVcpuCount data),
               PodInput_MinMemoryInGb = ValueInt64 (MinMemoryInGb data),
               PodInput_NetworkVolumeID = ValueString (NetworkVolumeID data),
               PodInput_TemplateID = ValueString (TemplateID data),
               PodInput_DataCenterID = ValueString (DataCenterID data),
               PodInput_SupportPublicIP = ValueBool (SupportPublicIP data),
               PodInput_StartSSH = ValueBool (StartSSH data)\<rparr>)"
proof -
  have [simp]: "IsNull v \<Longrightarrow> ValueString v = ''''" for v
    by (cases v) simp_all
  have [simp]: "IsNull v \<Longrightarrow> ValueInt64 v = 0" for v
    by (cases v) simp_all
  have [simp]: "IsNull v \<Longrightarrow> ValueBool v = False" for v
    by (cases v) simp_all
  show ?thesis
    unfolding Create_input_def conditional_assignment
    unfolding Let_def
    by (simp split: sum.split)
qed

text \<open>
  Claim C10. The variables of the create request are the same for a plan in which
  \<open>support_public_ip\<close> or \<open>start_ssh\<close> is an explicit \<open>false\<close>, or \<open>min_vcpu_count\<close> or
  \<open>min_memory_in_gb\<close> an explicit 0, as for the plan in which that field is null; and
  whenever the value of such a field is false or zero, the input map of the request
  has no entry under its key.
\<close>

theorem Create_omits_false_and_zero:
  "map_sum id CreatePod_variables (Create_input (data\<lparr>SupportPublicIP := Known False\<rparr>)) =
     map_sum id CreatePod_variables (Create_input (data\<lparr>SupportPublicIP := Null\<rparr>)) \<and>
   map_sum id CreatePod_variables (Create_input (data\<lparr>StartSSH := Known False\<rparr>)) =
     map_sum id CreatePod_variables (Create_input (data\<lparr>StartSSH := Null\<rparr>)) \<and>
   map_sum id CreatePod_variables (Create_input (data\<lparr>MinVcpuCount := Known 0\<rparr>)) =
     map_sum id CreatePod_variables (Create_input (data\<lparr>MinVcpuCount := Null\<rparr>)) \<and>
   map_sum id CreatePod_variables (Create_input (data\<lparr>MinMemoryInGb := Known 0\<rparr>)) =
     map_sum id CreatePod_variables (Create_input (data\<lparr>MinMemoryInGb := Null\<rparr>)) \<and>
   (Create_input data = Inr input \<longrightarrow>
      (ValueBool (SupportPublicIP data) = False \<longrightarrow>
         CreatePod_inputMap input ''supportPublicIp'' = None) \<and>
      (ValueBool (StartSSH data) = False \<longrightarrow>
         CreatePod_inputMap input ''startSsh'' = None) \<and>
      (ValueInt64 (MinVcpuCount data) = 0 \<longrightarrow>
         CreatePod_inputMap input ''minVcpuCount'' = None) \<and>
      (ValueInt64 (MinMemoryInGb data) = 0 \<longrightarrow>
         CreatePod_inputMap input ''minMemoryInGb'' = None))"
proof -
  have same:
    "Create_input (data\<lparr>SupportPublicIP := Known False\<rparr>) =
       Create_input (data\<lparr>SupportPublicIP := Null\<rparr>)"
    "Create_input (data\<lparr>StartSSH := Known False\<rparr>) = Create_input (data\<lparr>StartSSH := Null\<rparr>)"
    "Create_input (data\<lparr>MinVcpuCount := Known 0\<rparr>) = Create_input (data\<lparr>MinVcpuCount := Null\<rparr>)"
    "Create_input (data\<lparr>MinMemoryInGb := Known 0\<rparr>) =
       Create_input (data\<lparr>MinMemoryInGb := Null\<rparr>)"
    by (simp_all add: Create_input_fields split: sum.split)
  have absent: "(ValueBool (SupportPublicIP data) = False \<longrightarrow>
         CreatePod_inputMap input ''supportPublicIp'' = None) \<and>
      (ValueBool (StartSSH data) = False \<longrightarrow>
         CreatePod_inputMap input ''startSsh'' = None) \<and>
      (ValueInt64 (MinVcpuCount data) = 0 \<longrightarrow>
         CreatePod_inputMap input ''minVcpuCount'' = None) \<and>
      (ValueInt64 (MinMemoryInGb data) = 0 \<longrightarrow>
         CreatePod_inputMap input ''minMemoryInGb'' = None)"
    if built: "Create_input data = Inr input"
  proof -
    from built have "PodInput_SupportPublicIP input = ValueBool (SupportPublicIP data)"
      "PodInput_StartSSH input = ValueBool (StartSSH data)"
      "PodInput_MinVcpuCount input = ValueInt64 (MinVcpuCount data)"
      "PodInput_MinMemoryInGb input = ValueInt64 (MinMemoryInGb data)"
      by (auto simp: Create_input_fields split: sum.splits)
    then show ?thesis
      using CreatePod_inputMap_optional_keys[of input] by simp
  qed
  from same absent show ?thesis
    by simp
qed

text \<open>
  A plan with explicit \<open>false\<close> and 0 in the four fields: the pod input that \<open>Create\<close>
  builds, the keys missing from its input map, and the same variables as for null.
\<close>

theorem Create_omits_false_and_zero_witness:
  "Create_input explicit_zero_plan =
     Inr \<lparr>PodInput_Name = ''x'', PodInput_ImageName = ''img'', PodInput_GpuTypeID = ''A4000'',
          PodInput_GpuTypeIDs = [], PodInput_GpuCount = 1, PodInput_VolumeInGb = 20,
          PodInput_ContainerDiskInGb = 20, PodInput_CloudType = ''SECURE'',
          PodInput_Ports = '''', PodInput_VolumeMountPath = ''/workspace'',
          PodInput_DockerArgs = '''',
          PodInput_Env = [\<lparr>Key = ''TEST_VAR'', Value = ''test_value''\<rparr>],
          PodInput_MinVcpuCount = 0, PodInput_MinMemoryInGb = 0,
          PodInput_NetworkVolumeID = ''nv1'', PodInput_TemplateID = ''t1'',
          PodInput_DataCenterID = ''dc1'', PodInput_SupportPublicIP = False,
          PodInput_StartSSH = False\<rparr> \<and>
   CreatePod_inputMap
       \<lparr>PodInput_Name = ''x'', PodInput_ImageName = ''img'', PodInput_GpuTypeID = ''A4000'',
        PodInput_GpuTypeIDs = [], PodInput_GpuCount = 1, PodInput_VolumeInGb = 20,
        PodInput_ContainerDiskInGb = 20, PodInput_CloudType = ''SECURE'',
        PodInput_Ports = '''', PodInput_VolumeMountPath = ''/workspace'',
        PodInput_DockerArgs = '''',
        PodInput_Env = [\<lparr>Key = ''TEST_VAR'', Value = ''test_value''\<rparr>],
        PodInput_MinVcpuCount = 0, PodInput_MinMemoryInGb = 0,
        PodInput_NetworkVolumeID = ''nv1'', PodInput_TemplateID = ''t1'',
        PodInput_DataCenterID = ''dc1'', PodInput_SupportPublicIP = False,
        PodInput_StartSSH = False\<rparr> ''supportPublicIp'' = None \<and>
   CreatePod_inputMap
       \<lparr>PodInput_Name = ''x'', PodInput_ImageName = ''img'', PodInput_GpuTypeID = ''A4000'',
        PodInput_GpuTypeIDs = [], PodInput_GpuCount = 1, PodInput_VolumeInGb = 20,
        PodInput_ContainerDiskInGb = 20, PodInput_CloudType = ''SECURE'',
        PodInput_Ports = '''', PodInput_VolumeMountPath = ''/workspace'',
        PodInput_DockerArgs = '''',
        PodInput_Env = [\<lparr>Key = ''TEST_VAR'', Value = ''test_value''\<rparr>],
        PodInput_MinVcpuCount = 0, PodInput_MinMemoryInGb = 0,
        PodInput_NetworkVolumeID = ''nv1'', PodInput_TemplateID = ''t1'',
        PodInput_DataCenterID = ''dc1'', PodInput_SupportPublicIP = False,
        PodInput_StartSSH = False\<rparr> ''minVcpuCount'' = None \<and>
   map_sum id CreatePod_variables (Create_input explicit_zero_plan) =
     map_sum id CreatePod_variables (Create_input (explicit_zero_plan\<lparr>SupportPublicIP := Null\<rparr>)) \<and>
   map_sum id CreatePod_variables (Create_input explicit_zero_plan) =
     map_sum id CreatePod_variables (Create_input (explicit_zero_plan\<lparr>MinVcpuCount := Null\<rparr>))"
proof -
  let ?input = "\<lparr>PodInput_Name = ''x'', PodInput_ImageName = ''img'', PodInput_GpuTypeID = ''A4000'',
        PodInput_GpuTypeIDs = [], PodInput_GpuCount = 1, PodInput_VolumeInGb = 20,
        PodInput_ContainerDiskInGb = 20, PodInput_CloudType = ''SECURE'',
        PodInput_Ports = '''', PodInput_VolumeMountPath = ''/workspace'',
        PodInput_DockerArgs = '''',
        PodInput_Env = [\<lparr>Key = ''TEST_VAR'', Value = ''test_value''\<rparr>],
        PodInput_MinVcpuCount = 0, PodInput_MinMemoryInGb = 0,
        PodInput_NetworkVolumeID = ''nv1'', PodInput_TemplateID = ''t1'',
        PodInput_DataCenterID = ''dc1'', PodInput_SupportPublicIP = False,
        PodInput_StartSSH = False\<rparr>"
  have built: "Create_input explicit_zero_plan = Inr ?input"
    by (simp add: Create_input_fields explicit_zero_plan_def local_state_def)
  have zero: "ValueBool (SupportPublicIP explicit_zero_plan) = False"
    "ValueInt64 (MinVcpuCount explicit_zero_plan) = 0"
    by (simp_all add: explicit_zero_plan_def)
  have public: "explicit_zero_plan\<lparr>SupportPublicIP := Known False\<rparr> = explicit_zero_plan"
    and vcpu: "explicit_zero_plan\<lparr>MinVcpuCount := Known 0\<rparr> = explicit_zero_plan"
    by (simp_all add: explicit_zero_plan_def)
  from Create_omits_false_and_zero[of explicit_zero_plan ?input] built zero
  have "CreatePod_inputMap ?input ''supportPublicIp'' = None"
    and "CreatePod_inputMap ?input ''minVcpuCount'' = None"
    and "map_sum id CreatePod_variables (Create_input (explicit_zero_plan\<lparr>SupportPublicIP := Known False\<rparr>)) =
      map_sum id CreatePod_variables (Create_input (explicit_zero_plan\<lparr>SupportPublicIP := Null\<rparr>))"
    and "map_sum id CreatePod_variables (Create_input (explicit_zero_plan\<lparr>MinVcpuCount := Known 0\<rparr>)) =
      map_sum id CreatePod_variables (Create_input (explicit_zero_plan\<lparr>MinVcpuCount := Null\<rparr>))"
    by blast+
  then show ?thesis
    unfolding public vcpu using built by blast
qed

end
